theory Spec2Isabelle
  imports Complex_Main "HOL-Library.Multiset"
begin

section \<open>JavaScript values used by the game client\<close>

text \<open>
  The client is TypeScript running on a JavaScript engine. A JavaScript string is a
  sequence of UTF-16 code units; the game is played in Hebrew, so its texts do not fit
  into 8-bit characters. A string is therefore modelled as the list of its code units,
  each a natural number below 65536. \<open>str\<close> turns an ASCII literal into that form.
\<close>

type_synonym jsstring = "nat list"

definition str :: "string \<Rightarrow> jsstring" where
  "str s = map of_char s"

text \<open>
  Decimal rendering of an integer, as a template literal \<^verbatim>\<open>${n}\<close> renders an
  integer-valued number (the engine switches to exponent notation only from \<open>10\<^sup>2\<^sup>1\<close> on,
  far beyond any guess number or percentile).
\<close>

fun digits :: "nat \<Rightarrow> jsstring" where
  "digits n = (if n < 10 then [48 + n] else digits (n div 10) @ [48 + n mod 10])"

declare digits.simps [simp del]

definition int_to_string :: "int \<Rightarrow> jsstring" where
  "int_to_string i = (if i < 0 then 45 # digits (nat (- i)) else digits (nat i))"

section \<open>Presentation derivation (index.tsx)\<close>

text \<open>
  \<^verbatim>\<open>index.tsx\<close> holds the screen component twice: a first copy in lines 1 to 614 and a
  second copy, which adds the clue feature, in lines 615 to 1447. Both copies define
  \<^verbatim>\<open>getSimilarityColor\<close> and \<^verbatim>\<open>getTemperatureEmoji\<close> with the same thresholds and
  tokens. A similarity is a JSON number, hence a finite double; it is modelled as a real
  number (JSON cannot carry NaN). The glyphs are given by their UTF-16 code units.
\<close>

definition getSimilarityColor :: "real \<Rightarrow> jsstring" where
  "getSimilarityColor similarity =
     (if similarity \<ge> 80 then str ''#10b981''
      else if similarity \<ge> 70 then str ''#84cc16''
      else if similarity \<ge> 60 then str ''#eab308''
      else if similarity \<ge> 50 then str ''#f59e0b''
      else if similarity \<ge> 40 then str ''#f97316''
      else if similarity \<ge> 30 then str ''#ef4444''
      else if similarity \<ge> 20 then str ''#3b82f6''
      else str ''#6b7280'')"

definition fire :: jsstring where
  "fire = [0xD83D, 0xDD25]"

definition getTemperatureEmoji :: "real \<Rightarrow> jsstring" where
  "getTemperatureEmoji similarity =
     (if similarity \<ge> 80 then fire @ fire @ fire
      else if similarity \<ge> 70 then fire @ fire
      else if similarity \<ge> 60 then fire
      else if similarity \<ge> 50 then [0xD83C, 0xDF21, 0xFE0F]
      else if similarity \<ge> 40 then [0xD83C, 0xDF24, 0xFE0F]
      else if similarity \<ge> 30 then [0x2601, 0xFE0F]
      else if similarity \<ge> 20 then [0x2744, 0xFE0F]
      else [0xD83E, 0xDDCA])"

text \<open>
  \<^verbatim>\<open>getPercentileDisplay\<close> of the second copy (lines 769 to 777). The percentile of
  a guess is \<^verbatim>\<open>number | null | undefined\<close>; \<open>None\<close> stands for both absent forms, which
  the code treats alike. The placeholder is an em dash (U+2014). The function of the
  same name in the first copy is \<open>getPercentileDisplay_first\<close> below.
\<close>

definition getPercentileDisplay :: "int option \<Rightarrow> jsstring" where
  "getPercentileDisplay percentile =
     (case percentile of
        None \<Rightarrow> [0x2014]
      | Some p \<Rightarrow> int_to_string p @ str ''/1000'')"

subsection \<open>The eight bands as the specification words them\<close>

text \<open>
  Band \<open>0\<close> is the top band (80 and above), band \<open>7\<close> the bottom one (below 20); each
  band in between is half-open and contains its lower threshold.
\<close>

definition in_band :: "nat \<Rightarrow> real \<Rightarrow> bool" where
  "in_band b score =
     (if b = 0 then 80 \<le> score
      else if b = 1 then 70 \<le> score \<and> score < 80
      else if b = 2 then 60 \<le> score \<and> score < 70
      else if b = 3 then 50 \<le> score \<and> score < 60
      else if b = 4 then 40 \<le> score \<and> score < 50
      else if b = 5 then 30 \<le> score \<and> score < 40
      else if b = 6 then 20 \<le> score \<and> score < 30
      else if b = 7 then score < 20
      else False)"

definition color_tokens :: "jsstring list" where
  "color_tokens =
     [str ''#10b981'', str ''#84cc16'', str ''#eab308'', str ''#f59e0b'',
      str ''#f97316'', str ''#ef4444'', str ''#3b82f6'', str ''#6b7280'']"

definition glyph_tokens :: "jsstring list" where
  "glyph_tokens =
     [fire @ fire @ fire, fire @ fire, fire, [0xD83C, 0xDF21, 0xFE0F],
      [0xD83C, 0xDF24, 0xFE0F], [0x2601, 0xFE0F], [0x2744, 0xFE0F], [0xD83E, 0xDDCA]]"

definition band_of :: "real \<Rightarrow> nat" where
  "band_of score =
     (if 80 \<le> score then 0 else if 70 \<le> score then 1 else if 60 \<le> score then 2
      else if 50 \<le> score then 3 else if 40 \<le> score then 4 else if 30 \<le> score then 5
      else if 20 \<le> score then 6 else 7)"

section \<open>Data model (the game service, src/unnamed/part_000)\<close>

text \<open>
  The payload interfaces of the game service. Fields that carry the same name in two
  interfaces are told apart by a prefix (\<open>r_\<close> for the guess response, \<open>c_\<close> for the
  clue response). The screen reads \<^verbatim>\<open>guess.percentile\<close> of the guesses of a game state,
  so the field is part of \<open>Guess\<close> here, optional as in \<^verbatim>\<open>GuessResponse\<close>.
\<close>

record Guess =
  word :: jsstring
  similarity :: real
  guess_number :: int
  rank :: int
  is_correct :: bool
  percentile :: "int option"

record GameState =
  game_id :: jsstring
  guesses :: "Guess list"
  guess_count :: int
  game_over :: bool
  target_word :: "jsstring option"
  started_at :: jsstring
  clues_used :: "int option"
  clues_available :: "jsstring list option"

record ClueResponse =
  c_game_id :: jsstring
  clue :: jsstring
  clue_number :: int
  remaining_clues :: int

record GuessResponse =
  r_game_id :: jsstring
  r_word :: jsstring
  r_similarity :: real
  r_rank :: int
  r_percentile :: "int option"
  r_guess_number :: int
  r_is_correct :: bool
  r_game_over :: bool
  r_top_similarity :: "real option"

record GiveUpResponse =
  u_game_id :: jsstring
  u_target_word :: jsstring
  u_message :: jsstring

section \<open>The guess list and the percentile cells as displayed (index.tsx)\<close>

text \<open>
  The second copy of the screen (lines 962 and 963) renders
  \<^verbatim>\<open>[...gameState.guesses].sort((a, b) => b.similarity - a.similarity)\<close>.
  \<^verbatim>\<open>Array.prototype.sort\<close> is stable, and for a consistent comparator it returns the one
  stable ordering of its input; \<open>array_sort\<close> computes that ordering by insertion, an
  element going in front of the first later element it does not have to follow.
\<close>

definition compareFn :: "Guess \<Rightarrow> Guess \<Rightarrow> real" where
  "compareFn a b = similarity b - similarity a"

fun insert_sorted :: "('a \<Rightarrow> 'a \<Rightarrow> real) \<Rightarrow> 'a \<Rightarrow> 'a list \<Rightarrow> 'a list" where
  "insert_sorted cmp x [] = [x]"
| "insert_sorted cmp x (y # ys) =
     (if cmp x y \<le> 0 then x # y # ys else y # insert_sorted cmp x ys)"

definition array_sort :: "('a \<Rightarrow> 'a \<Rightarrow> real) \<Rightarrow> 'a list \<Rightarrow> 'a list" where
  "array_sort cmp xs = foldr (insert_sorted cmp) xs []"

definition displayedGuesses :: "GameState \<Rightarrow> Guess list" where
  "displayedGuesses game = array_sort compareFn (guesses game)"

text \<open>The two orderings the specification asks of the displayed sequence.\<close>

definition descending_by_similarity :: "Guess list \<Rightarrow> bool" where
  "descending_by_similarity gs = sorted_wrt (\<lambda>a b. similarity a \<ge> similarity b) gs"

definition ties_by_rank :: "Guess list \<Rightarrow> bool" where
  "ties_by_rank gs =
     sorted_wrt (\<lambda>a b. similarity a = similarity b \<longrightarrow> rank a \<le> rank b) gs"

text \<open>
  In the second copy: the percentile cell of a guess row (lines 980 to 994), and the
  percentile cell of the statistics box (line 848), which shows the first guess of the
  game state when there is one.
\<close>

definition guessPercentileCell :: "Guess \<Rightarrow> jsstring" where
  "guessPercentileCell guess =
     (if percentile guess \<noteq> None then getPercentileDisplay (percentile guess)
      else [0x2014])"

definition topGuess :: "GameState \<Rightarrow> Guess option" where
  "topGuess game =
     (if length (guesses game) > 0 then Some (guesses game ! 0) else None)"

definition statsPercentileCell :: "GameState \<Rightarrow> jsstring option" where
  "statsPercentileCell game =
     (case topGuess game of
        None \<Rightarrow> None
      | Some g \<Rightarrow> Some (getPercentileDisplay (percentile g)))"

subsection \<open>The first copy of the screen (lines 1 to 614)\<close>

text \<open>
  The first copy renders \<^verbatim>\<open>gameState.guesses.map(...)\<close> (line 257): the guesses in the
  order the game state holds them, with no sorting.
\<close>

definition displayedGuesses_first :: "GameState \<Rightarrow> Guess list" where
  "displayedGuesses_first game = guesses game"

text \<open>
  Its \<^verbatim>\<open>getPercentileDisplay(rank, total)\<close> (lines 113 to 117) computes the text from the
  rank of the guess and the guess count of the game, in IEEE 754 double arithmetic.
  \<open>double x\<close> is the double nearest to \<open>x\<close>, a tie going to the even significand, for
  \<open>x\<close> in the range of normal doubles; a division or multiplication of doubles returns
  the \<open>double\<close> of the exact result. Integers of magnitude below \<open>2\<^sup>5\<^sup>3\<close> are doubles,
  and their sums and differences are exact. \<^verbatim>\<open>Math.round\<close> returns the nearest integer,
  a half going upwards.
\<close>

definition round_even :: "real \<Rightarrow> int" where
  "round_even y =
     (let f = \<lfloor>y\<rfloor>
      in if y - of_int f < 1 / 2 then f
         else if y - of_int f > 1 / 2 then f + 1
         else if even f then f else f + 1)"

definition double :: "real \<Rightarrow> real" where
  "double x =
     (if x = 0 then 0
      else (let e = \<lfloor>log 2 \<bar>x\<bar>\<rfloor> - 52
            in of_int (round_even (x / 2 powr of_int e)) * 2 powr of_int e))"

definition math_round :: "real \<Rightarrow> int" where
  "math_round x = \<lfloor>x + 1 / 2\<rfloor>"

definition getPercentileDisplay_first :: "int \<Rightarrow> int \<Rightarrow> jsstring" where
  "getPercentileDisplay_first rnk tot =
     (if tot = 0 then str ''1000/1000''
      else int_to_string
             (math_round
                (double (double (real_of_int (tot - rnk + 1) / real_of_int tot) * 1000)))
           @ str ''/1000'')"

text \<open>
  The percentile cell of a guess row (lines 273 to 275) and of the statistics box
  (line 188) in the first copy.
\<close>

definition guessPercentileCell_first :: "GameState \<Rightarrow> Guess \<Rightarrow> jsstring" where
  "guessPercentileCell_first game guess =
     getPercentileDisplay_first (rank guess) (guess_count game)"

definition statsPercentileCell_first :: "GameState \<Rightarrow> jsstring option" where
  "statsPercentileCell_first game =
     (case topGuess game of
        None \<Rightarrow> None
      | Some g \<Rightarrow> Some (getPercentileDisplay_first (rank g) (guess_count game)))"

section \<open>Errors, JSON and the parts of the engine the client relies on\<close>

text \<open>
  A thrown value is an \<^verbatim>\<open>Error\<close> object of some class with a message, or something that
  is not an \<^verbatim>\<open>Error\<close> at all. \<open>catch_message\<close> is the expression
  \<^verbatim>\<open>err instanceof Error ? err.message : fallback\<close> of the handlers.
\<close>

datatype js_error = Error jsstring | TypeError jsstring | SyntaxError jsstring | NotAnError

definition catch_message :: "js_error \<Rightarrow> jsstring \<Rightarrow> jsstring" where
  "catch_message err fallback =
     (case err of
        Error m \<Rightarrow> m
      | TypeError m \<Rightarrow> m
      | SyntaxError m \<Rightarrow> m
      | NotAnError \<Rightarrow> fallback)"

datatype json =
    JNull
  | JBool bool
  | JNum real
  | JStr jsstring
  | JArr "json list"
  | JObj "(jsstring \<times> json) list"

text \<open>
  What the engine supplies and the repository does not define: the Unicode lower-casing
  of \<^verbatim>\<open>String.prototype.toLowerCase\<close>, the rendering of a number as a string, and the
  message of the \<^verbatim>\<open>TypeError\<close> raised by reading a property of \<^verbatim>\<open>null\<close>.
  They are parameters of the model. \<open>ascii_runtime\<close> is an instance for strings without
  cased letters outside ASCII (Hebrew has none) and for integer-valued numbers.
\<close>

record runtime =
  toLowerCase :: "jsstring \<Rightarrow> jsstring"
  numberToString :: "real \<Rightarrow> jsstring"
  nullReadMessage :: jsstring

definition ascii_lower :: "nat \<Rightarrow> nat" where
  "ascii_lower u = (if 65 \<le> u \<and> u \<le> 90 then u + 32 else u)"

definition ascii_runtime :: runtime where
  "ascii_runtime =
     \<lparr> toLowerCase = map ascii_lower,
       numberToString = (\<lambda>x. int_to_string \<lfloor>x\<rfloor>),
       nullReadMessage = str ''Cannot read properties of null'' \<rparr>"

text \<open>
  \<^verbatim>\<open>String.prototype.trim\<close> removes the white space and line terminator code units of
  ECMAScript from both ends.
\<close>

definition is_space :: "nat \<Rightarrow> bool" where
  "is_space u =
     (u \<in> set [0x9, 0xA, 0xB, 0xC, 0xD, 0x20, 0xA0, 0x1680, 0x2028, 0x2029, 0x202F,
               0x205F, 0x3000, 0xFEFF]
      \<or> (0x2000 \<le> u \<and> u \<le> 0x200A))"

definition trim :: "jsstring \<Rightarrow> jsstring" where
  "trim s = rev (dropWhile is_space (rev (dropWhile is_space s)))"

text \<open>
  Truthiness, string conversion and property lookup on a parsed JSON value.
  \<^verbatim>\<open>JSON.parse\<close> keeps the last of several members with one name. Only the lookup of
  a member name is modelled, which is all \<^verbatim>\<open>error.detail\<close> needs.
\<close>

fun truthy :: "json \<Rightarrow> bool" where
  "truthy JNull = False"
| "truthy (JBool b) = b"
| "truthy (JNum x) = (x \<noteq> 0)"
| "truthy (JStr s) = (s \<noteq> [])"
| "truthy (JArr xs) = True"
| "truthy (JObj fs) = True"

fun join_comma :: "jsstring list \<Rightarrow> jsstring" where
  "join_comma [] = []"
| "join_comma [x] = x"
| "join_comma (x # y # ys) = x @ 44 # join_comma (y # ys)"

fun ToString :: "runtime \<Rightarrow> json \<Rightarrow> jsstring" where
  "ToString rt JNull = str ''null''"
| "ToString rt (JBool b) = (if b then str ''true'' else str ''false'')"
| "ToString rt (JNum x) = numberToString rt x"
| "ToString rt (JStr s) = s"
| "ToString rt (JArr xs) = join_comma (map (\<lambda>x. if x = JNull then [] else ToString rt x) xs)"
| "ToString rt (JObj fs) = str ''[object Object]''"

definition get_member :: "json \<Rightarrow> jsstring \<Rightarrow> json option" where
  "get_member v name =
     (case v of JObj members \<Rightarrow> map_of (rev members) name | _ \<Rightarrow> None)"

section \<open>Transport adapter (the game service, src/unnamed/part_000; config/api.ts)\<close>

text \<open>
  \<^verbatim>\<open>fetch\<close> is the only input/output of the service. It is a parameter: a function from
  the request to either the error the promise rejects with or the response. A request
  body is the value handed to \<^verbatim>\<open>JSON.stringify\<close>; \<open>json_body\<close> of a response is the
  outcome of \<^verbatim>\<open>response.json()\<close>, a \<^verbatim>\<open>SyntaxError\<close> when the body is not JSON.
  \<^verbatim>\<open>response.ok\<close> is true for the status codes 200 to 299.
\<close>

datatype http_method = GET | POST

record request =
  url :: jsstring
  http_method :: http_method
  headers :: "(jsstring \<times> jsstring) list"
  body :: "json option"

record response =
  status :: nat
  json_body :: "js_error + json"

type_synonym fetch = "request \<Rightarrow> js_error + response"

definition ok :: "response \<Rightarrow> bool" where
  "ok r = (200 \<le> status r \<and> status r \<le> 299)"

definition API_BASE_URL :: jsstring where
  "API_BASE_URL = str ''http://localhost:8080''"

definition HEALTH :: jsstring where "HEALTH = str ''/''"
definition START_GAME :: jsstring where "START_GAME = str ''/game/start''"
definition MAKE_GUESS :: jsstring where "MAKE_GUESS = str ''/game/guess''"

definition GET_GAME_STATE :: "jsstring \<Rightarrow> jsstring" where
  "GET_GAME_STATE gameId = str ''/game/'' @ gameId"

definition GIVE_UP :: "jsstring \<Rightarrow> jsstring" where
  "GIVE_UP gameId = str ''/game/'' @ gameId @ str ''/give-up''"

definition json_headers :: "(jsstring \<times> jsstring) list" where
  "json_headers = [(str ''Content-Type'', str ''application/json'')]"

text \<open>
  The statements every operation runs on a response that is not ok:
  \<^verbatim>\<open>const error = await response.json(); throw new Error(error.detail || fallback)\<close>.
  The result is the value thrown.
\<close>

definition throw_detail :: "runtime \<Rightarrow> response \<Rightarrow> jsstring \<Rightarrow> js_error" where
  "throw_detail rt response fallback =
     (case json_body response of
        Inl parse_error \<Rightarrow> parse_error
      | Inr JNull \<Rightarrow> TypeError (nullReadMessage rt)
      | Inr error \<Rightarrow>
          (case get_member error (str ''detail'') of
             None \<Rightarrow> Error fallback
           | Some detail \<Rightarrow>
               if truthy detail then Error (ToString rt detail) else Error fallback))"

text \<open>The part shared by all operations after the request has been sent.\<close>

definition receive :: "runtime \<Rightarrow> jsstring \<Rightarrow> js_error + response \<Rightarrow> js_error + json" where
  "receive rt fallback outcome =
     (case outcome of
        Inl network_error \<Rightarrow> Inl network_error
      | Inr response \<Rightarrow>
          if \<not> ok response then Inl (throw_detail rt response fallback)
          else json_body response)"

definition checkHealth_request :: request where
  "checkHealth_request =
     \<lparr> url = API_BASE_URL @ HEALTH, http_method = GET, headers = [], body = None \<rparr>"

definition checkHealth :: "fetch \<Rightarrow> js_error + bool" where
  "checkHealth fetch =
     (case fetch checkHealth_request of
        Inr response \<Rightarrow> Inr (ok response)
      | Inl error \<Rightarrow> Inr False)"

definition startGame_request :: "jsstring \<Rightarrow> bool \<Rightarrow> request" where
  "startGame_request difficulty dailyMode =
     \<lparr> url = API_BASE_URL @ START_GAME, http_method = POST, headers = json_headers,
       body = Some (JObj [(str ''difficulty'', JStr difficulty),
                          (str ''daily_mode'', JBool dailyMode)]) \<rparr>"

definition startGame :: "runtime \<Rightarrow> fetch \<Rightarrow> jsstring \<Rightarrow> bool \<Rightarrow> js_error + json" where
  "startGame rt fetch difficulty dailyMode =
     receive rt (str ''Failed to start game'') (fetch (startGame_request difficulty dailyMode))"

definition makeGuess_request :: "runtime \<Rightarrow> jsstring \<Rightarrow> jsstring \<Rightarrow> request" where
  "makeGuess_request rt gameId w =
     \<lparr> url = API_BASE_URL @ MAKE_GUESS, http_method = POST, headers = json_headers,
       body = Some (JObj [(str ''game_id'', JStr gameId),
                          (str ''word'', JStr (trim (toLowerCase rt w)))]) \<rparr>"

definition makeGuess :: "runtime \<Rightarrow> fetch \<Rightarrow> jsstring \<Rightarrow> jsstring \<Rightarrow> js_error + json" where
  "makeGuess rt fetch gameId w =
     receive rt (str ''Failed to make guess'') (fetch (makeGuess_request rt gameId w))"

definition getGameState_request :: "jsstring \<Rightarrow> request" where
  "getGameState_request gameId =
     \<lparr> url = API_BASE_URL @ GET_GAME_STATE gameId, http_method = GET, headers = [],
       body = None \<rparr>"

definition getGameState :: "runtime \<Rightarrow> fetch \<Rightarrow> jsstring \<Rightarrow> js_error + json" where
  "getGameState rt fetch gameId =
     receive rt (str ''Failed to get game state'') (fetch (getGameState_request gameId))"

definition giveUp_request :: "jsstring \<Rightarrow> request" where
  "giveUp_request gameId =
     \<lparr> url = API_BASE_URL @ GIVE_UP gameId, http_method = POST, headers = [], body = None \<rparr>"

definition giveUp :: "runtime \<Rightarrow> fetch \<Rightarrow> jsstring \<Rightarrow> js_error + json" where
  "giveUp rt fetch gameId =
     receive rt (str ''Failed to give up'') (fetch (giveUp_request gameId))"

definition getClue_request :: "jsstring \<Rightarrow> request" where
  "getClue_request gameId =
     \<lparr> url = API_BASE_URL @ str ''/game/'' @ gameId @ str ''/clue'', http_method = POST,
       headers = [], body = None \<rparr>"

definition getClue :: "runtime \<Rightarrow> fetch \<Rightarrow> jsstring \<Rightarrow> js_error + json" where
  "getClue rt fetch gameId =
     receive rt (str ''Failed to get clue'') (fetch (getClue_request gameId))"

text \<open>The word a guess request carries in its body.\<close>

definition request_word :: "request \<Rightarrow> jsstring option" where
  "request_word r =
     (case body r of
        Some v \<Rightarrow> (case get_member v (str ''word'') of Some (JStr w) \<Rightarrow> Some w | _ \<Rightarrow> None)
      | None \<Rightarrow> None)"

text \<open>
  The error convention as the specification words it: the text of the \<open>detail\<close> member
  when the body has one, the operation's fallback otherwise.
\<close>

definition spec_error_message :: "json option \<Rightarrow> jsstring \<Rightarrow> jsstring" where
  "spec_error_message detail fallback =
     (case detail of Some (JStr text) \<Rightarrow> text | _ \<Rightarrow> fallback)"

section \<open>Game session controller (index.tsx)\<close>

text \<open>
  The state of the second copy of the screen component: one field for each
  \<^verbatim>\<open>useState\<close> hook. The first copy has the same hooks except \<open>cluesUsed\<close> and
  \<open>currentClue\<close>, and the same \<^verbatim>\<open>initializeGame\<close>, \<^verbatim>\<open>startNewGame\<close>, \<^verbatim>\<open>handleGuess\<close>
  and \<^verbatim>\<open>handleGiveUp\<close>; it has no \<^verbatim>\<open>handleGetClue\<close>.
\<close>

record Session =
  gameState :: "GameState option"
  guessInput :: jsstring
  loading :: bool
  apiConnected :: "bool option"
  error :: jsstring
  cluesUsed :: int
  currentClue :: jsstring

definition initial_session :: Session where
  "initial_session =
     \<lparr> gameState = None, guessInput = [], loading = False, apiConnected = None,
       error = [], cluesUsed = 0, currentClue = [] \<rparr>"

text \<open>
  What a handler does besides setting state: calls to the game service (each sends
  exactly one request), dialogs, and timers. A timer carries the callback it will run.
\<close>

datatype service_call =
    CheckHealth
  | StartGame jsstring bool
  | MakeGuess jsstring jsstring
  | GetGameState jsstring
  | GiveUp jsstring
  | GetClue jsstring

datatype timer_action = ClearClue | WinAlert int

datatype effect =
    Call service_call
  | Alert jsstring
  | Confirm jsstring
  | SetTimeout timer_action nat

text \<open>The user-facing texts of the handlers, as UTF-16 code units.\<close>

definition guess_error_text :: jsstring where
  "guess_error_text =
     [0x5E9, 0x5D2, 0x5D9, 0x5D0, 0x5D4, 0x20, 0x5D1, 0x5E0, 0x5D9, 0x5D7, 0x5D5, 0x5E9]"

definition give_up_error_text :: jsstring where
  "give_up_error_text =
     [0x5E9, 0x5D2, 0x5D9, 0x5D0, 0x5D4, 0x20, 0x5D1, 0x5D5, 0x5D5, 0x5D9, 0x5EA, 0x5D5,
     0x5E8]"

definition clue_error_text :: jsstring where
  "clue_error_text =
     [0x5E9, 0x5D2, 0x5D9, 0x5D0, 0x5D4, 0x20, 0x5D1, 0x5E7, 0x5D1, 0x5DC, 0x5EA, 0x20,
     0x5E8, 0x5DE, 0x5D6]"

definition all_clues_used_text :: jsstring where
  "all_clues_used_text =
     [0x5D4, 0x5E9, 0x5EA, 0x5DE, 0x5E9, 0x5EA, 0x20, 0x5D1, 0x5DB, 0x5DC, 0x20, 0x5D4,
     0x5E8, 0x5DE, 0x5D6, 0x5D9, 0x5DD, 0x21]"

definition confirm_give_up_text :: jsstring where
  "confirm_give_up_text =
     [0x5D1, 0x5D8, 0x5D5, 0x5D7, 0x20, 0x5E9, 0x5D0, 0x5EA, 0x5D4, 0x20, 0x5E8, 0x5D5,
     0x5E6, 0x5D4, 0x20, 0x5DC, 0x5D5, 0x5D5, 0x5EA, 0x5E8, 0x3F]"

definition win_text :: "int \<Rightarrow> jsstring" where
  "win_text n =
     [0xD83C, 0xDF89, 0x20, 0x5DE, 0x5E6, 0x5D0, 0x5EA, 0x20, 0x5D0, 0x5EA, 0x20, 0x5D4,
     0x5DE, 0x5D9, 0x5DC, 0x5D4, 0x20, 0x5D1, 0x2D]
     @ int_to_string n @
     [0x20, 0x5E0, 0x5D9, 0x5D7, 0x5D5, 0x5E9, 0x5D9, 0x5DD, 0x21]"

definition target_word_text :: "jsstring \<Rightarrow> jsstring" where
  "target_word_text w =
     [0x5D4, 0x5DE, 0x5D9, 0x5DC, 0x5D4, 0x20, 0x5D4, 0x5D9, 0x5D9, 0x5EA, 0x5D4, 0x3A,
     0x20] @ w"

text \<open>
  A handler is an \<^verbatim>\<open>async\<close> function. Its model runs it to completion: it takes the
  state the handler sees and the outcome of each service call it may await, at the
  type the service declares for it, and returns the state after all its setters
  together with its effects in order. An outcome is consulted only if the call is made.
\<close>

definition startNewGame :: "Session \<Rightarrow> bool \<Rightarrow> js_error + GameState \<Rightarrow> Session \<times> effect list" where
  "startNewGame s dailyMode startOutcome =
     (let s1 = s\<lparr>loading := True, error := []\<rparr>;
          calls = [Call (StartGame (str ''normal'') dailyMode)]
      in case startOutcome of
           Inr newGame \<Rightarrow>
             (s1\<lparr>gameState := Some newGame, guessInput := [], loading := False\<rparr>, calls)
         | Inl err \<Rightarrow>
             (s1\<lparr>error := catch_message err (str ''Failed to start game''),
                 loading := False\<rparr>, calls))"

definition initializeGame :: "Session \<Rightarrow> bool \<Rightarrow> js_error + GameState \<Rightarrow> Session \<times> effect list" where
  "initializeGame s isConnected startOutcome =
     (let s1 = s\<lparr>apiConnected := Some isConnected\<rparr>
      in if isConnected then
           (let s2 = s1\<lparr>loading := True, error := []\<rparr>;
                calls = [Call CheckHealth, Call (StartGame (str ''normal'') True)]
            in case startOutcome of
                 Inr newGame \<Rightarrow>
                   (s2\<lparr>gameState := Some newGame, guessInput := [], loading := False\<rparr>,
                    calls)
               | Inl err \<Rightarrow>
                   (s2\<lparr>error := catch_message err (str ''Failed to start game''),
                       loading := False\<rparr>, calls))
         else (s1, [Call CheckHealth]))"

definition handleGuess ::
  "Session \<Rightarrow> js_error + GuessResponse \<Rightarrow> js_error + GameState \<Rightarrow> Session \<times> effect list" where
  "handleGuess s guessOutcome stateOutcome =
     (case gameState s of
        None \<Rightarrow> (s, [])
      | Some game \<Rightarrow>
          if trim (guessInput s) = [] \<or> loading s then (s, [])
          else
            (let s1 = s\<lparr>loading := True, error := []\<rparr>;
                 call1 = Call (MakeGuess (game_id game) (guessInput s));
                 call2 = Call (GetGameState (game_id game))
             in case guessOutcome of
                  Inl err \<Rightarrow>
                    (s1\<lparr>error := catch_message err guess_error_text, loading := False\<rparr>,
                     [call1])
                | Inr result \<Rightarrow>
                    (case stateOutcome of
                       Inl err \<Rightarrow>
                         (s1\<lparr>error := catch_message err guess_error_text,
                             loading := False\<rparr>,
                          [call1, call2])
                     | Inr updatedState \<Rightarrow>
                         (s1\<lparr>gameState := Some updatedState, guessInput := [],
                             loading := False\<rparr>,
                          [call1, call2] @
                          (if r_is_correct result
                           then [SetTimeout (WinAlert (r_guess_number result)) 500]
                           else [])))))"

definition handleGiveUp ::
  "Session \<Rightarrow> bool \<Rightarrow> js_error + GiveUpResponse \<Rightarrow> js_error + GameState \<Rightarrow> Session \<times> effect list" where
  "handleGiveUp s confirmed giveUpOutcome startOutcome =
     (case gameState s of
        None \<Rightarrow> (s, [])
      | Some game \<Rightarrow>
          if confirmed then
            (case giveUpOutcome of
               Inr result \<Rightarrow>
                 (let (s', effects) = startNewGame s True startOutcome
                  in (s', [Confirm confirm_give_up_text, Call (GiveUp (game_id game)),
                           Alert (target_word_text (u_target_word result))] @ effects))
             | Inl err \<Rightarrow>
                 (s\<lparr>error := give_up_error_text\<rparr>,
                  [Confirm confirm_give_up_text, Call (GiveUp (game_id game))]))
          else (s, [Confirm confirm_give_up_text]))"

definition handleGetClue :: "Session \<Rightarrow> js_error + ClueResponse \<Rightarrow> Session \<times> effect list" where
  "handleGetClue s clueOutcome =
     (case gameState s of
        None \<Rightarrow> (s, [])
      | Some game \<Rightarrow>
          if loading s then (s, [])
          else if cluesUsed s \<ge> 3 then (s, [Alert all_clues_used_text])
          else
            (let s1 = s\<lparr>loading := True, error := []\<rparr>;
                 call = Call (GetClue (game_id game))
             in case clueOutcome of
                  Inr clueResponse \<Rightarrow>
                    (s1\<lparr>currentClue := clue clueResponse,
                        cluesUsed := clue_number clueResponse, loading := False\<rparr>,
                     [call, SetTimeout ClearClue 10000])
                | Inl err \<Rightarrow>
                    (s1\<lparr>error := catch_message err clue_error_text, loading := False\<rparr>,
                     [call])))"

section \<open>The component in time: event loop, timers\<close>

text \<open>
  The component on its event loop. \<open>timers\<close> holds the pending \<^verbatim>\<open>setTimeout\<close>
  callbacks with the time (in milliseconds) at which each is due; \<open>trace\<close> records the
  service calls and dialogs in the order they happen. The code never calls
  \<^verbatim>\<open>clearTimeout\<close>, so a timer leaves the list only by firing.
\<close>

record world =
  session :: Session
  timers :: "(nat \<times> timer_action) list"
  clock :: nat
  trace :: "effect list"

definition initial_world :: world where
  "initial_world = \<lparr> session = initial_session, timers = [], clock = 0, trace = [] \<rparr>"

fun perform :: "world \<Rightarrow> effect \<Rightarrow> world" where
  "perform w (SetTimeout action delay) = w\<lparr>timers := timers w @ [(clock w + delay, action)]\<rparr>"
| "perform w e = w\<lparr>trace := trace w @ [e]\<rparr>"

definition commit :: "world \<Rightarrow> Session \<times> effect list \<Rightarrow> world" where
  "commit w r = foldl perform (w\<lparr>session := fst r\<rparr>) (snd r)"

fun fire_timer :: "world \<Rightarrow> timer_action \<Rightarrow> world" where
  "fire_timer w ClearClue = w\<lparr>session := (session w)\<lparr>currentClue := []\<rparr>\<rparr>"
| "fire_timer w (WinAlert n) = w\<lparr>trace := trace w @ [Alert (win_text n)]\<rparr>"

text \<open>
  Letting time pass: the timers that have come due run in the order of their due
  times (timers due at the same time in the order they were set), the others stay.
\<close>

definition advance :: "world \<Rightarrow> nat \<Rightarrow> world" where
  "advance w dt =
     (let now = clock w + dt;
          due = sort_key fst (filter (\<lambda>t. fst t \<le> now) (timers w));
          pending = filter (\<lambda>t. \<not> fst t \<le> now) (timers w)
      in foldl fire_timer (w\<lparr>clock := now, timers := pending\<rparr>) (map snd due))"

datatype event =
    Mount bool "js_error + GameState"
  | TypeGuess jsstring
  | SubmitGuess "js_error + GuessResponse" "js_error + GameState"
  | RequestClue "js_error + ClueResponse"
  | PressGiveUp bool "js_error + GiveUpResponse" "js_error + GameState"
  | Elapse nat

fun step :: "world \<Rightarrow> event \<Rightarrow> world" where
  "step w (Mount isConnected startOutcome) =
     commit w (initializeGame (session w) isConnected startOutcome)"
| "step w (TypeGuess text) = w\<lparr>session := (session w)\<lparr>guessInput := text\<rparr>\<rparr>"
| "step w (SubmitGuess guessOutcome stateOutcome) =
     commit w (handleGuess (session w) guessOutcome stateOutcome)"
| "step w (RequestClue clueOutcome) = commit w (handleGetClue (session w) clueOutcome)"
| "step w (PressGiveUp confirmed giveUpOutcome startOutcome) =
     commit w (handleGiveUp (session w) confirmed giveUpOutcome startOutcome)"
| "step w (Elapse dt) = advance w dt"

definition run :: "world \<Rightarrow> event list \<Rightarrow> world" where
  "run w events = foldl step w events"

text \<open>The clue responses among the events: what the server reported.\<close>

fun clue_numbers :: "event list \<Rightarrow> int list" where
  "clue_numbers [] = []"
| "clue_numbers (RequestClue (Inr r) # es) = clue_number r # clue_numbers es"
| "clue_numbers (e # es) = clue_numbers es"

section \<open>Requests in flight\<close>

text \<open>
  Between sending a request and receiving its answer a handler is suspended at its
  \<^verbatim>\<open>await\<close>, and other handlers may run. Here each handler is split at its awaits. The
  part up to the first \<^verbatim>\<open>await\<close> returns the session, the effects so far and, when a
  request was sent, what the handler still has to do with the answer; \<open>resume\<close> runs a
  suspended handler on the answer up to its next \<^verbatim>\<open>await\<close> or to its end. The setters
  after an \<^verbatim>\<open>await\<close> act on the session as it is when the answer arrives; what the
  closure captured before (the game id, the result of the guess) is kept in the
  suspended handler.
\<close>

datatype pending =
    HealthPending
  | StartPending
  | GuessPending jsstring
  | RefreshPending GuessResponse
  | GiveUpPending
  | CluePending

datatype reply =
    HealthReply bool
  | StartReply "js_error + GameState"
  | GuessReply "js_error + GuessResponse"
  | StateReply "js_error + GameState"
  | GiveUpReply "js_error + GiveUpResponse"
  | ClueReply "js_error + ClueResponse"

type_synonym suspended = "Session \<times> effect list \<times> pending option"

definition initializeGame_begin :: "Session \<Rightarrow> suspended" where
  "initializeGame_begin s = (s, [Call CheckHealth], Some HealthPending)"

definition startNewGame_begin :: "Session \<Rightarrow> bool \<Rightarrow> suspended" where
  "startNewGame_begin s dailyMode =
     (s\<lparr>loading := True, error := []\<rparr>, [Call (StartGame (str ''normal'') dailyMode)],
      Some StartPending)"

definition handleGuess_begin :: "Session \<Rightarrow> suspended" where
  "handleGuess_begin s =
     (case gameState s of
        None \<Rightarrow> (s, [], None)
      | Some game \<Rightarrow>
          if trim (guessInput s) = [] \<or> loading s then (s, [], None)
          else (s\<lparr>loading := True, error := []\<rparr>,
                [Call (MakeGuess (game_id game) (guessInput s))],
                Some (GuessPending (game_id game))))"

definition handleGiveUp_begin :: "Session \<Rightarrow> bool \<Rightarrow> suspended" where
  "handleGiveUp_begin s confirmed =
     (case gameState s of
        None \<Rightarrow> (s, [], None)
      | Some game \<Rightarrow>
          if confirmed
          then (s, [Confirm confirm_give_up_text, Call (GiveUp (game_id game))],
                Some GiveUpPending)
          else (s, [Confirm confirm_give_up_text], None))"

definition handleGetClue_begin :: "Session \<Rightarrow> suspended" where
  "handleGetClue_begin s =
     (case gameState s of
        None \<Rightarrow> (s, [], None)
      | Some game \<Rightarrow>
          if loading s then (s, [], None)
          else if cluesUsed s \<ge> 3 then (s, [Alert all_clues_used_text], None)
          else (s\<lparr>loading := True, error := []\<rparr>, [Call (GetClue (game_id game))],
                Some CluePending))"

text \<open>
  An answer of another kind than the suspended handler waits for is not its answer:
  the handler stays suspended.
\<close>

fun resume :: "Session \<Rightarrow> pending \<Rightarrow> reply \<Rightarrow> suspended" where
  "resume s HealthPending (HealthReply isConnected) =
     (let s1 = s\<lparr>apiConnected := Some isConnected\<rparr>
      in if isConnected
         then (s1\<lparr>loading := True, error := []\<rparr>,
               [Call (StartGame (str ''normal'') True)], Some StartPending)
         else (s1, [], None))"
| "resume s StartPending (StartReply (Inr newGame)) =
     (s\<lparr>gameState := Some newGame, guessInput := [], loading := False\<rparr>, [], None)"
| "resume s StartPending (StartReply (Inl err)) =
     (s\<lparr>error := catch_message err (str ''Failed to start game''), loading := False\<rparr>,
      [], None)"
| "resume s (GuessPending gameId) (GuessReply (Inr result)) =
     (s, [Call (GetGameState gameId)], Some (RefreshPending result))"
| "resume s (GuessPending gameId) (GuessReply (Inl err)) =
     (s\<lparr>error := catch_message err guess_error_text, loading := False\<rparr>, [], None)"
| "resume s (RefreshPending result) (StateReply (Inr updatedState)) =
     (s\<lparr>gameState := Some updatedState, guessInput := [], loading := False\<rparr>,
      (if r_is_correct result then [SetTimeout (WinAlert (r_guess_number result)) 500]
       else []),
      None)"
| "resume s (RefreshPending result) (StateReply (Inl err)) =
     (s\<lparr>error := catch_message err guess_error_text, loading := False\<rparr>, [], None)"
| "resume s GiveUpPending (GiveUpReply (Inr result)) =
     (case startNewGame_begin s True of
        (s', effects, p) \<Rightarrow> (s', Alert (target_word_text (u_target_word result)) # effects, p))"
| "resume s GiveUpPending (GiveUpReply (Inl err)) =
     (s\<lparr>error := give_up_error_text\<rparr>, [], None)"
| "resume s CluePending (ClueReply (Inr clueResponse)) =
     (s\<lparr>currentClue := clue clueResponse, cluesUsed := clue_number clueResponse,
        loading := False\<rparr>,
      [SetTimeout ClearClue 10000], None)"
| "resume s CluePending (ClueReply (Inl err)) =
     (s\<lparr>error := catch_message err clue_error_text, loading := False\<rparr>, [], None)"
| "resume s p r = (s, [], Some p)"

text \<open>
  The screen with its requests in flight: \<open>in_flight\<close> lists the suspended handlers,
  \<open>history\<close> the effects in the order they happened. The user's actions start handlers;
  \<open>Answered i r\<close> delivers the answer \<open>r\<close> to the \<open>i\<close>-th suspended handler. Timers are
  logged here and followed in \<open>world\<close> above.
\<close>

record screen =
  view :: Session
  in_flight :: "pending list"
  history :: "effect list"

definition initial_screen :: screen where
  "initial_screen = \<lparr> view = initial_session, in_flight = [], history = [] \<rparr>"

datatype action =
    Mounted
  | Typed jsstring
  | GuessPressed
  | CluePressed
  | GiveUpPressed bool
  | Answered nat reply

definition started :: "screen \<Rightarrow> suspended \<Rightarrow> screen" where
  "started w r =
     (case r of (s, effects, p) \<Rightarrow>
        \<lparr> view = s, in_flight = in_flight w @ (case p of None \<Rightarrow> [] | Some q \<Rightarrow> [q]),
          history = history w @ effects \<rparr>)"

definition answered :: "screen \<Rightarrow> nat \<Rightarrow> reply \<Rightarrow> screen" where
  "answered w i r =
     (if i < length (in_flight w)
      then (case resume (view w) (in_flight w ! i) r of (s, effects, p) \<Rightarrow>
              \<lparr> view = s,
                in_flight = take i (in_flight w) @ (case p of None \<Rightarrow> [] | Some q \<Rightarrow> [q])
                            @ drop (Suc i) (in_flight w),
                history = history w @ effects \<rparr>)
      else w)"

fun act :: "screen \<Rightarrow> action \<Rightarrow> screen" where
  "act w Mounted = started w (initializeGame_begin (view w))"
| "act w (Typed text) = w\<lparr>view := (view w)\<lparr>guessInput := text\<rparr>\<rparr>"
| "act w GuessPressed = started w (handleGuess_begin (view w))"
| "act w CluePressed = started w (handleGetClue_begin (view w))"
| "act w (GiveUpPressed confirmed) = started w (handleGiveUp_begin (view w) confirmed)"
| "act w (Answered i r) = answered w i r"

definition acts :: "screen \<Rightarrow> action list \<Rightarrow> screen" where
  "acts w as = foldl act w as"

text \<open>The clue numbers among the answers delivered to the screen.\<close>

fun answered_clue_numbers :: "action list \<Rightarrow> int list" where
  "answered_clue_numbers [] = []"
| "answered_clue_numbers (Answered i (ClueReply (Inr r)) # as) =
     clue_number r # answered_clue_numbers as"
| "answered_clue_numbers (a # as) = answered_clue_numbers as"

section \<open>Sample data\<close>

text \<open>
  A game state as the server may return it after two guesses that score the same
  similarity: the first guess ranks 120, the second ranks 40.
\<close>

definition dog :: Guess where
  "dog = \<lparr> word = str ''dog'', similarity = 45.2, guess_number = 1, rank = 120,
           is_correct = False, percentile = None \<rparr>"

definition cat :: Guess where
  "cat = \<lparr> word = str ''cat'', similarity = 45.2, guess_number = 2, rank = 40,
           is_correct = False, percentile = Some 960 \<rparr>"

definition tied_game :: GameState where
  "tied_game =
     \<lparr> game_id = str ''g1'', guesses = [dog, cat], guess_count = 2, game_over = False,
       target_word = None, started_at = str ''2025-01-01T00:00:00'', clues_used = None,
       clues_available = None \<rparr>"

text \<open>
  Two error responses: a 404 whose body names the problem, and a 400 whose
  \<open>detail\<close> is the empty text.
\<close>

definition not_found_response :: response where
  "not_found_response =
     \<lparr> status = 404,
       json_body = Inr (JObj [(str ''detail'', JStr (str ''Game not found''))]) \<rparr>"

definition empty_detail_response :: response where
  "empty_detail_response =
     \<lparr> status = 400, json_body = Inr (JObj [(str ''detail'', JStr [])]) \<rparr>"

text \<open>
  A session with \<open>tied_game\<close> active and a word typed, the server's answers to that
  guess, clue answers, and the error of a request that never reached the server.
\<close>

definition active_session :: Session where
  "active_session =
     initial_session\<lparr>gameState := Some tied_game, apiConnected := Some True,
       guessInput := str ''bird''\<rparr>"


definition bird :: Guess where
  "bird = \<lparr> word = str ''bird'', similarity = 62, guess_number = 3, rank = 17,
            is_correct = False, percentile = Some 983 \<rparr>"

definition after_bird :: GameState where
  "after_bird = tied_game\<lparr>guesses := [bird, dog, cat], guess_count := 3\<rparr>"

definition clue_reply :: "int \<Rightarrow> string \<Rightarrow> ClueResponse" where
  "clue_reply n text =
     \<lparr> c_game_id = str ''g1'', clue = str text, clue_number = n, remaining_clues = 3 - n \<rparr>"

definition offline :: js_error where
  "offline = TypeError (str ''Network request failed'')"

text \<open>
  Two clues revealed eight seconds apart, and the moment ten seconds after the first.
\<close>

definition two_clues :: "event list" where
  "two_clues =
     [Mount True (Inr tied_game),
      RequestClue (Inr (clue_reply 1 ''an animal'')),
      Elapse 8000,
      RequestClue (Inr (clue_reply 2 ''it can fly''))]"

text \<open>
  Three clues, the server numbering the third one 4.
\<close>

definition overcounted_clues :: "event list" where
  "overcounted_clues =
     [Mount True (Inr tied_game),
      RequestClue (Inr (clue_reply 1 ''an animal'')),
      RequestClue (Inr (clue_reply 2 ''it can fly'')),
      RequestClue (Inr (clue_reply 4 ''it sings''))]"

text \<open>Three clues numbered 1 to 3.\<close>

definition three_clues :: "event list" where
  "three_clues =
     [Mount True (Inr tied_game),
      RequestClue (Inr (clue_reply 1 ''an animal'')),
      RequestClue (Inr (clue_reply 2 ''it can fly'')),
      RequestClue (Inr (clue_reply 3 ''it sings''))]"

text \<open>
  A game state whose guesses the server sent in the order they were made, the closer
  guess last.
\<close>

definition unsorted_game :: GameState where
  "unsorted_game = tied_game\<lparr>guesses := [dog, bird]\<rparr>"


text \<open>The screen after the game has started and one clue has been asked for and given.\<close>

definition one_clue_answered :: "action list" where
  "one_clue_answered =
     [Mounted, Answered 0 (HealthReply True), Answered 0 (StartReply (Inr tied_game)),
      CluePressed, Answered 0 (ClueReply (Inr (clue_reply 1 ''an animal'')))]"

section \<open>Properties of the presentation derivation\<close>

lemma in_band_iff: "b < 8 \<and> in_band b score \<longleftrightarrow> b = band_of score"
  by (auto simp: in_band_def band_of_def split: if_splits)

lemma band_of_less: "band_of score < 8"
  by (simp add: band_of_def)

lemma color_of_band: "getSimilarityColor score = color_tokens ! band_of score"
  by (simp add: getSimilarityColor_def color_tokens_def band_of_def)

lemma glyph_of_band: "getTemperatureEmoji score = glyph_tokens ! band_of score"
  by (simp add: getTemperatureEmoji_def glyph_tokens_def band_of_def)

lemma distinct_color_tokens: "distinct color_tokens"
  by (simp add: color_tokens_def str_def)

lemma distinct_glyph_tokens: "distinct glyph_tokens"
  by (simp add: glyph_tokens_def fire_def)

lemma exactly_one_band: "\<exists>!b. b < 8 \<and> in_band b score"
  unfolding in_band_iff by simp

lemma tokens_length: "length color_tokens = 8" "length glyph_tokens = 8"
  by (simp_all add: color_tokens_def glyph_tokens_def)

lemma band_tokens:
  "b < 8 \<Longrightarrow> in_band b score \<Longrightarrow>
     getSimilarityColor score = color_tokens ! b \<and> getTemperatureEmoji score = glyph_tokens ! b"
  using in_band_iff [of b score] by (simp add: color_of_band glyph_of_band)

lemma color_gives_band:
  assumes b: "b < 8" and eq: "getSimilarityColor score = color_tokens ! b"
  shows "in_band b score"
proof -
  from eq have "color_tokens ! band_of score = color_tokens ! b"
    by (simp add: color_of_band)
  then have "band_of score = b"
    using distinct_color_tokens b band_of_less [of score] tokens_length
      nth_eq_iff_index_eq [of color_tokens "band_of score" b] by simp
  then show ?thesis using in_band_iff [of b score] b by simp
qed

lemma glyph_gives_band:
  assumes b: "b < 8" and eq: "getTemperatureEmoji score = glyph_tokens ! b"
  shows "in_band b score"
proof -
  from eq have "glyph_tokens ! band_of score = glyph_tokens ! b"
    by (simp add: glyph_of_band)
  then have "band_of score = b"
    using distinct_glyph_tokens b band_of_less [of score] tokens_length
      nth_eq_iff_index_eq [of glyph_tokens "band_of score" b] by simp
  then show ?thesis using in_band_iff [of b score] b by simp
qed

lemma thresholds_inclusive: "b < 7 \<Longrightarrow> in_band b (80 - 10 * real b)"
proof -
  assume "b < 7"
  then have "b \<in> {0, 1, 2, 3, 4, 5, 6}" by auto
  then show "in_band b (80 - 10 * real b)"
    by (auto simp: in_band_def)
qed

lemma boundary_scores:
  "getSimilarityColor 80 = color_tokens ! 0"
  "getSimilarityColor 79.9 = color_tokens ! 1"
  "getTemperatureEmoji 80 = glyph_tokens ! 0"
  "getTemperatureEmoji 79.9 = glyph_tokens ! 1"
  by (simp_all add: getSimilarityColor_def getTemperatureEmoji_def color_tokens_def
      glyph_tokens_def)

text \<open>
  Claim C3. For every score in \<open>[0, 100]\<close> exactly one of the eight bands applies; the
  colour and the glyph returned are the tokens of that band and of no other band; every
  band contains its lower threshold, so that \<open>80\<close> falls into the top band and \<open>79.9\<close>
  into the next one.
\<close>

theorem bands_cover_scores:
  assumes "0 \<le> score" and "score \<le> 100"
  shows "(\<exists>!b. b < 8 \<and> in_band b score)
       \<and> (\<forall>b<8. in_band b score \<longrightarrow>
              getSimilarityColor score = color_tokens ! b
            \<and> getTemperatureEmoji score = glyph_tokens ! b)
       \<and> (\<forall>b<8. getSimilarityColor score = color_tokens ! b \<longrightarrow> in_band b score)
       \<and> (\<forall>b<8. getTemperatureEmoji score = glyph_tokens ! b \<longrightarrow> in_band b score)
       \<and> (\<forall>b<7. in_band b (80 - 10 * real b))
       \<and> getSimilarityColor 80 = color_tokens ! 0
       \<and> getSimilarityColor 79.9 = color_tokens ! 1
       \<and> getTemperatureEmoji 80 = glyph_tokens ! 0
       \<and> getTemperatureEmoji 79.9 = glyph_tokens ! 1"
proof -
  have fwd: "\<forall>b<8. in_band b score \<longrightarrow>
      getSimilarityColor score = color_tokens ! b
    \<and> getTemperatureEmoji score = glyph_tokens ! b"
    using band_tokens by blast
  have back_color: "\<forall>b<8. getSimilarityColor score = color_tokens ! b \<longrightarrow> in_band b score"
    using color_gives_band by blast
  have back_glyph: "\<forall>b<8. getTemperatureEmoji score = glyph_tokens ! b \<longrightarrow> in_band b score"
    using glyph_gives_band by blast
  have incl: "\<forall>b<7. in_band b (80 - 10 * real b)"
    using thresholds_inclusive by blast
  show ?thesis
    using exactly_one_band [of score] fwd back_color back_glyph incl boundary_scores
    by (intro conjI) assumption+
qed

theorem bands_cover_scores_witness:
  "(0::real) \<le> 79.9 \<and> (79.9::real) \<le> 100 \<and> in_band 1 79.9
   \<and> getSimilarityColor 79.9 = str ''#84cc16''
   \<and> getTemperatureEmoji 79.9 = fire @ fire"
proof -
  have h1: "(0::real) \<le> 79.9" and h2: "(79.9::real) \<le> 100" by simp_all
  have b: "in_band 1 79.9" by (simp add: in_band_def)
  from bands_cover_scores [OF h1 h2] b
  have "getSimilarityColor 79.9 = color_tokens ! 1 \<and> getTemperatureEmoji 79.9 = glyph_tokens ! 1"
    by simp
  then show ?thesis using h1 h2 b by (simp add: color_tokens_def glyph_tokens_def)
qed

section \<open>Properties of the displayed guess list\<close>

lemma mset_insert_sorted: "mset (insert_sorted cmp x ys) = add_mset x (mset ys)"
  by (induction ys) simp_all

lemma mset_array_sort: "mset (array_sort cmp xs) = mset xs"
  by (induction xs) (simp_all add: array_sort_def mset_insert_sorted)

lemma set_insert_sorted: "set (insert_sorted cmp x ys) = insert x (set ys)"
  by (induction ys) auto

lemma descending_insert_sorted:
  "descending_by_similarity ys \<Longrightarrow> descending_by_similarity (insert_sorted compareFn x ys)"
  unfolding descending_by_similarity_def
  by (induction ys) (auto simp: compareFn_def set_insert_sorted)

lemma descending_array_sort: "descending_by_similarity (array_sort compareFn xs)"
proof (induction xs)
  case Nil
  show ?case by (simp add: array_sort_def descending_by_similarity_def)
next
  case (Cons x xs)
  then show ?case
    using descending_insert_sorted [of "array_sort compareFn xs" x]
    by (simp add: array_sort_def)
qed

lemma ties_insert_sorted:
  "filter (\<lambda>g. similarity g = v) (insert_sorted compareFn x ys) =
     (if similarity x = v then x # filter (\<lambda>g. similarity g = v) ys
      else filter (\<lambda>g. similarity g = v) ys)"
  by (induction ys) (auto simp: compareFn_def)

lemma ties_array_sort:
  "filter (\<lambda>g. similarity g = v) (array_sort compareFn xs) = filter (\<lambda>g. similarity g = v) xs"
  by (induction xs) (simp_all add: array_sort_def ties_insert_sorted)

lemma descending_as_sorted:
  "descending_by_similarity gs \<longleftrightarrow> sorted (map (\<lambda>g. - similarity g) gs)"
  by (simp add: descending_by_similarity_def sorted_map) 

lemma similarities_of_sorted:
  "sort (map (\<lambda>g. - similarity g) gs) = map (\<lambda>g. - similarity g) (array_sort compareFn gs)"
proof (rule properties_for_sort)
  show "mset (map (\<lambda>g. - similarity g) (array_sort compareFn gs))
      = mset (map (\<lambda>g. - similarity g) gs)"
    by (simp add: mset_array_sort)
  show "sorted (map (\<lambda>g. - similarity g) (array_sort compareFn gs))"
    using descending_array_sort [of gs] by (simp only: descending_as_sorted)
qed

lemma order_of_insertion_irrelevant:
  assumes "mset gs' = mset gs"
  shows "map similarity (array_sort compareFn gs') = map similarity (array_sort compareFn gs)"
proof -
  from assms have m: "mset (map (\<lambda>g. - similarity g) gs') = mset (map (\<lambda>g. - similarity g) gs)"
    by simp
  have "sort (map (\<lambda>g. - similarity g) gs') = sort (map (\<lambda>g. - similarity g) gs)"
    by (rule properties_for_sort) (simp_all add: assms)
  then have "map (\<lambda>g. - similarity g) (array_sort compareFn gs')
      = map (\<lambda>g. - similarity g) (array_sort compareFn gs)"
    by (simp only: similarities_of_sorted)
  then have "map uminus (map similarity (array_sort compareFn gs'))
      = map uminus (map similarity (array_sort compareFn gs))"
    by (simp only: map_map comp_def)
  then show ?thesis by (rule map_injective) simp
qed

text \<open>
  Claim C1, as the code has it. In the second copy of the screen the displayed sequence
  is a rearrangement of the guesses in the session state, sorted descending by
  similarity; the similarities it shows are the same for every order in which the
  session state may hold the guesses; guesses of equal similarity keep the relative
  order they have in the session state, the comparator never looking at the rank. In
  the first copy the displayed sequence is the guesses of the session state in the
  order held there.
\<close>

theorem displayed_guesses_stably_sorted:
  "descending_by_similarity (displayedGuesses game)
   \<and> mset (displayedGuesses game) = mset (guesses game)
   \<and> (mset (guesses game') = mset (guesses game) \<longrightarrow>
        map similarity (displayedGuesses game') = map similarity (displayedGuesses game))
   \<and> filter (\<lambda>g. similarity g = v) (displayedGuesses game)
       = filter (\<lambda>g. similarity g = v) (guesses game)
   \<and> displayedGuesses_first game = guesses game"
proof -
  have "mset (guesses game') = mset (guesses game) \<longrightarrow>
        map similarity (displayedGuesses game') = map similarity (displayedGuesses game)"
    unfolding displayedGuesses_def by (intro impI order_of_insertion_irrelevant)
  then show ?thesis
    by (simp add: displayedGuesses_def descending_array_sort mset_array_sort ties_array_sort
        displayedGuesses_first_def)
qed

theorem displayed_guesses_stably_sorted_witness:
  "mset (guesses (after_bird\<lparr>guesses := [dog, cat, bird]\<rparr>)) = mset (guesses after_bird)
   \<and> map similarity (displayedGuesses (after_bird\<lparr>guesses := [dog, cat, bird]\<rparr>)) = [62, 45.2, 45.2]
   \<and> map similarity (displayedGuesses after_bird) = [62, 45.2, 45.2]
   \<and> map word (displayedGuesses after_bird) = [str ''bird'', str ''dog'', str ''cat'']"
proof -
  have h: "mset (guesses (after_bird\<lparr>guesses := [dog, cat, bird]\<rparr>)) = mset (guesses after_bird)"
    by (simp add: after_bird_def)
  have d: "displayedGuesses after_bird = [bird, dog, cat]"
    by (simp add: displayedGuesses_def array_sort_def after_bird_def compareFn_def
        bird_def dog_def cat_def)
  from h displayed_guesses_stably_sorted [of after_bird "after_bird\<lparr>guesses := [dog, cat, bird]\<rparr>"]
  have "map similarity (displayedGuesses (after_bird\<lparr>guesses := [dog, cat, bird]\<rparr>))
      = map similarity (displayedGuesses after_bird)"
    by blast
  with h d show ?thesis by (simp add: bird_def dog_def cat_def)
qed

text \<open>
  Claim C1 as stated asks that the displayed sequence be sorted descending by
  similarity with guesses of equal similarity in ascending order of rank. In the second
  copy the guess of rank 120 of \<open>tied_game\<close> is displayed before the guess of rank 40. In
  the first copy the guesses of \<open>unsorted_game\<close> are displayed as held, the similarity
  45.2 before the similarity 62.
\<close>

theorem ties_by_rank_counterexample:
  "\<not> (descending_by_similarity (displayedGuesses tied_game)
      \<and> ties_by_rank (displayedGuesses tied_game))
   \<and> \<not> descending_by_similarity (displayedGuesses_first unsorted_game)"
  by (simp add: displayedGuesses_def array_sort_def tied_game_def compareFn_def
      ties_by_rank_def dog_def cat_def bird_def displayedGuesses_first_def unsorted_game_def
      descending_by_similarity_def)

section \<open>Properties of the percentile text\<close>

lemma digits_value: "foldl (\<lambda>a d. 10 * a + (d - 48)) 0 (digits n) = n"
proof (induction n rule: digits.induct)
  case (1 n)
  show ?case
  proof (cases "n < 10")
    case True
    then show ?thesis by (subst digits.simps) simp
  next
    case False
    with 1 show ?thesis by (subst digits.simps) simp
  qed
qed

lemma digits_decimal: "set (digits n) \<subseteq> {48..57}"
proof (induction n rule: digits.induct)
  case (1 n)
  show ?case
  proof (cases "n < 10")
    case True
    then show ?thesis by (subst digits.simps) auto
  next
    case False
    have "n mod 10 < 10" by simp
    with False 1 show ?thesis by (subst digits.simps) auto
  qed
qed

lemma digits_987: "digits 987 = str ''987''"
  by (simp add: digits.simps str_def)

text \<open>
  Claim C7, as the code has it. In the second copy of the screen the percentile text of
  a guess is the placeholder when the server sent no percentile and the decimal
  percentile followed by \<open>/1000\<close> otherwise. Both places that show it (a guess row and
  the statistics box, which shows the first guess of the game state) pass the
  percentile of the guess as the server sent it: changing the rank, the guess number or
  the similarity of the guess, or the guess count of the game, changes nothing. In the
  first copy both places show the text computed from the rank of the guess and the
  guess count of the game: \<open>1000/1000\<close> when the guess count is 0, otherwise
  \<open>(guess_count - rank + 1) / guess_count * 1000\<close>, computed in doubles, rounded by
  \<^verbatim>\<open>Math.round\<close> and followed by \<open>/1000\<close>, whatever percentile the server sent.
\<close>

theorem percentile_text_from_server_value:
  "getPercentileDisplay None = [0x2014]
   \<and> getPercentileDisplay (Some p) = int_to_string p @ str ''/1000''
   \<and> getPercentileDisplay (Some 987) = str ''987/1000''
   \<and> int_to_string (int k) = digits k
   \<and> int_to_string (- int (Suc k)) = 45 # digits (Suc k)
   \<and> foldl (\<lambda>a d. 10 * a + (d - 48)) 0 (digits k) = k
   \<and> set (digits k) \<subseteq> {48..57}
   \<and> guessPercentileCell guess = getPercentileDisplay (percentile guess)
   \<and> guessPercentileCell (guess\<lparr>rank := r, guess_number := n, similarity := x\<rparr>)
       = guessPercentileCell guess
   \<and> statsPercentileCell game
       = (case guesses game of [] \<Rightarrow> None
          | first # rest \<Rightarrow> Some (getPercentileDisplay (percentile first)))
   \<and> statsPercentileCell (game\<lparr>guess_count := c\<rparr>) = statsPercentileCell game
   \<and> guessPercentileCell_first game guess
       = (if guess_count game = 0 then str ''1000/1000''
          else int_to_string
                 (math_round
                    (double (double (real_of_int (guess_count game - rank guess + 1)
                                     / real_of_int (guess_count game)) * 1000)))
               @ str ''/1000'')
   \<and> math_round y = \<lfloor>y + 1 / 2\<rfloor>
   \<and> guessPercentileCell_first game (guess\<lparr>percentile := q\<rparr>)
       = guessPercentileCell_first game guess
   \<and> statsPercentileCell_first game
       = (case guesses game of [] \<Rightarrow> None
          | first # rest \<Rightarrow> Some (guessPercentileCell_first game first))"
proof -
  have decimal: "int_to_string (int k) = digits k"
      "int_to_string (- int (Suc k)) = 45 # digits (Suc k)"
      "foldl (\<lambda>a d. 10 * a + (d - 48)) 0 (digits k) = k"
      "set (digits k) \<subseteq> {48..57}"
    by (simp_all add: int_to_string_def digits_value digits_decimal del: of_nat_Suc)
  have second: "getPercentileDisplay None = [0x2014]"
      "getPercentileDisplay (Some p) = int_to_string p @ str ''/1000''"
      "getPercentileDisplay (Some 987) = str ''987/1000''"
      "guessPercentileCell guess = getPercentileDisplay (percentile guess)"
      "guessPercentileCell (guess\<lparr>rank := r, guess_number := n, similarity := x\<rparr>)
         = guessPercentileCell guess"
      "statsPercentileCell game
         = (case guesses game of [] \<Rightarrow> None
            | first # rest \<Rightarrow> Some (getPercentileDisplay (percentile first)))"
      "statsPercentileCell (game\<lparr>guess_count := c\<rparr>) = statsPercentileCell game"
    by (simp_all add: getPercentileDisplay_def guessPercentileCell_def statsPercentileCell_def
        topGuess_def int_to_string_def digits_987 str_def split: option.splits list.splits)
  have first: "guessPercentileCell_first game guess
       = (if guess_count game = 0 then str ''1000/1000''
          else int_to_string
                 (math_round
                    (double (double (real_of_int (guess_count game - rank guess + 1)
                                     / real_of_int (guess_count game)) * 1000)))
               @ str ''/1000'')"
      "math_round y = \<lfloor>y + 1 / 2\<rfloor>"
      "guessPercentileCell_first game (guess\<lparr>percentile := q\<rparr>)
         = guessPercentileCell_first game guess"
      "statsPercentileCell_first game
         = (case guesses game of [] \<Rightarrow> None
            | first # rest \<Rightarrow> Some (guessPercentileCell_first game first))"
    by (simp_all add: guessPercentileCell_first_def statsPercentileCell_first_def
        getPercentileDisplay_first_def topGuess_def math_round_def
        split: option.splits list.splits)
  from decimal second first show ?thesis by (intro conjI) assumption+
qed

lemma round_even_of_int: "round_even (of_int m) = m"
  by (simp add: round_even_def)

lemma double_exact:
  assumes "x \<noteq> 0" and "\<lfloor>log 2 \<bar>x\<bar>\<rfloor> = k"
    and "x / 2 powr of_int (k - 52) = of_int m"
  shows "double x = x"
proof -
  have p: "2 powr of_int (k - 52) \<noteq> (0::real)" by simp
  from assms(3) p have "x = of_int m * 2 powr of_int (k - 52)"
    by (simp add: field_simps)
  then show ?thesis
    using assms by (simp add: double_def Let_def round_even_of_int)
qed

lemma floor_log2:
  assumes "0 < x" and "2 ^ n \<le> x" and "x < 2 ^ Suc n"
  shows "\<lfloor>log 2 x\<rfloor> = int n"
proof -
  have "real n \<le> log 2 x"
    using assms by (simp add: le_log_iff powr_realpow)
  moreover have "log 2 x < real n + 1"
    using assms by (simp add: log_less_iff powr_add powr_realpow)
  ultimately show ?thesis by linarith
qed

lemma double_halves:
  "double (- 117 / 2) = - 117 / 2"
  "double (- 37 / 2) = - 37 / 2"
  "double (- 35 / 4) = - 35 / 4"
proof -
  show "double (- 117 / 2) = - 117 / 2"
  proof (rule double_exact)
    show "(- 117 / 2 :: real) \<noteq> 0" by simp
    show "\<lfloor>log 2 \<bar>- 117 / 2 :: real\<bar>\<rfloor> = 5"
      using floor_log2 [of "117 / 2" 5] by simp
    show "(- 117 / 2 :: real) / 2 powr of_int (5 - 52) = of_int (- 117 * 2 ^ 46)"
      by (simp add: powr_minus_divide)
  qed
  show "double (- 37 / 2) = - 37 / 2"
  proof (rule double_exact)
    show "(- 37 / 2 :: real) \<noteq> 0" by simp
    show "\<lfloor>log 2 \<bar>- 37 / 2 :: real\<bar>\<rfloor> = 4"
      using floor_log2 [of "37 / 2" 4] by simp
    show "(- 37 / 2 :: real) / 2 powr of_int (4 - 52) = of_int (- 37 * 2 ^ 47)"
      by (simp add: powr_minus_divide)
  qed
  show "double (- 35 / 4) = - 35 / 4"
  proof (rule double_exact)
    show "(- 35 / 4 :: real) \<noteq> 0" by simp
    show "\<lfloor>log 2 \<bar>- 35 / 4 :: real\<bar>\<rfloor> = 3"
      using floor_log2 [of "35 / 4" 3] by simp
    show "(- 35 / 4 :: real) / 2 powr of_int (3 - 52) = of_int (- 35 * 2 ^ 47)"
      by (simp add: powr_minus_divide)
  qed
qed

lemma double_thousands:
  "double (- 58500) = - 58500"
  "double (- 18500) = - 18500"
  "double (- 8750) = - 8750"
proof -
  show "double (- 58500) = - 58500"
  proof (rule double_exact)
    show "(- 58500 :: real) \<noteq> 0" by simp
    show "\<lfloor>log 2 \<bar>- 58500 :: real\<bar>\<rfloor> = 15"
      using floor_log2 [of 58500 15] by simp
    show "(- 58500 :: real) / 2 powr of_int (15 - 52) = of_int (- 58500 * 2 ^ 37)"
      by (simp add: powr_minus_divide)
  qed
  show "double (- 18500) = - 18500"
  proof (rule double_exact)
    show "(- 18500 :: real) \<noteq> 0" by simp
    show "\<lfloor>log 2 \<bar>- 18500 :: real\<bar>\<rfloor> = 14"
      using floor_log2 [of 18500 14] by simp
    show "(- 18500 :: real) / 2 powr of_int (14 - 52) = of_int (- 18500 * 2 ^ 38)"
      by (simp add: powr_minus_divide)
  qed
  show "double (- 8750) = - 8750"
  proof (rule double_exact)
    show "(- 8750 :: real) \<noteq> 0" by simp
    show "\<lfloor>log 2 \<bar>- 8750 :: real\<bar>\<rfloor> = 13"
      using floor_log2 [of 8750 13] by simp
    show "(- 8750 :: real) / 2 powr of_int (13 - 52) = of_int (- 8750 * 2 ^ 39)"
      by (simp add: powr_minus_divide)
  qed
qed

lemma first_copy_text:
  assumes "tot \<noteq> 0"
    and "double (real_of_int (tot - rnk + 1) / real_of_int tot) = q"
    and "double (q * 1000) = of_int m"
  shows "getPercentileDisplay_first rnk tot = int_to_string m @ str ''/1000''"
  using assms by (simp add: getPercentileDisplay_first_def math_round_def)

lemma first_copy_texts:
  "getPercentileDisplay_first 120 2 = str ''-58500/1000''"
  "getPercentileDisplay_first 40 2 = str ''-18500/1000''"
  "getPercentileDisplay_first 40 4 = str ''-8750/1000''"
proof -
  have "getPercentileDisplay_first 120 2 = int_to_string (- 58500) @ str ''/1000''"
    by (rule first_copy_text [where q = "- 117 / 2"])
       (use double_halves double_thousands in simp_all)
  then show "getPercentileDisplay_first 120 2 = str ''-58500/1000''"
    by (simp add: int_to_string_def digits.simps str_def)
  have "getPercentileDisplay_first 40 2 = int_to_string (- 18500) @ str ''/1000''"
    by (rule first_copy_text [where q = "- 37 / 2"])
       (use double_halves double_thousands in simp_all)
  then show "getPercentileDisplay_first 40 2 = str ''-18500/1000''"
    by (simp add: int_to_string_def digits.simps str_def)
  have "getPercentileDisplay_first 40 4 = int_to_string (- 8750) @ str ''/1000''"
    by (rule first_copy_text [where q = "- 35 / 4"])
       (use double_halves double_thousands in simp_all)
  then show "getPercentileDisplay_first 40 4 = str ''-8750/1000''"
    by (simp add: int_to_string_def digits.simps str_def)
qed

text \<open>
  Claim C7 as stated holds of every guess shown. In the first copy the guess \<open>dog\<close> of
  \<open>tied_game\<close>, which has no percentile, is shown with the text \<open>-58500/1000\<close> instead of
  the placeholder; the guess \<open>cat\<close>, whose percentile is 960, is shown with
  \<open>-18500/1000\<close>; and the text changes with the guess count.
\<close>

theorem percentile_first_copy_counterexample:
  "percentile dog = None
   \<and> guessPercentileCell_first tied_game dog = str ''-58500/1000''
   \<and> guessPercentileCell_first tied_game dog \<noteq> [0x2014]
   \<and> percentile cat = Some 960
   \<and> guessPercentileCell_first tied_game cat = str ''-18500/1000''
   \<and> guessPercentileCell_first tied_game cat \<noteq> str ''960/1000''
   \<and> guessPercentileCell_first (tied_game\<lparr>guess_count := 4\<rparr>) cat
       \<noteq> guessPercentileCell_first tied_game cat"
  by (simp add: guessPercentileCell_first_def tied_game_def dog_def cat_def
      first_copy_texts str_def)

section \<open>Properties of the transport adapter\<close>

text \<open>
  Claim C10. \<open>checkHealth\<close> never raises: whatever the request does, the result is a
  boolean, true exactly when the request resolves with a status from 200 to 299, false
  for every other status and when the request fails.
\<close>

theorem checkHealth_never_raises:
  "checkHealth fetch =
     Inr (case fetch checkHealth_request of
            Inl network_error \<Rightarrow> False
          | Inr response \<Rightarrow> 200 \<le> status response \<and> status response \<le> 299)"
  by (simp add: checkHealth_def ok_def split: sum.splits)

lemma trim_no_trailing_space: "dropWhile is_space (rev (trim s)) = rev (trim s)"
  by (simp add: trim_def)

lemma last_dropWhile: "dropWhile P xs \<noteq> [] \<Longrightarrow> last (dropWhile P xs) = last xs"
  by (metis last_appendR takeWhile_dropWhile_id)

lemma trim_no_leading_space: "dropWhile is_space (trim s) = trim s"
proof (cases "trim s = []")
  case True
  then show ?thesis by simp
next
  case False
  define t where "t = dropWhile is_space s"
  define d where "d = dropWhile is_space (rev t)"
  have ts: "trim s = rev d" by (simp add: trim_def t_def d_def)
  with False have d: "d \<noteq> []" by simp
  then have t: "t \<noteq> []" by (auto simp: d_def)
  have "last d = last (rev t)" using d unfolding d_def by (rule last_dropWhile)
  also have "\<dots> = hd t" using t by (simp add: last_rev)
  finally have "hd (trim s) = hd t" using d ts by (simp add: hd_rev)
  moreover have "\<not> is_space (hd t)" using t unfolding t_def by (rule hd_dropWhile)
  ultimately show ?thesis by (simp add: dropWhile_eq_self_iff)
qed

lemma trim_empty_iff: "trim s = [] \<longleftrightarrow> list_all is_space s"
proof -
  define t where "t = dropWhile is_space s"
  have "trim s = [] \<longleftrightarrow> (\<forall>x\<in>set t. is_space x)"
    by (simp add: trim_def t_def dropWhile_eq_Nil_conv)
  also have "\<dots> \<longleftrightarrow> t = []"
  proof
    assume all: "\<forall>x\<in>set t. is_space x"
    show "t = []"
    proof (rule ccontr)
      assume "t \<noteq> []"
      then have "\<not> is_space (hd t)" "hd t \<in> set t"
        unfolding t_def by (rule hd_dropWhile, simp)
      with all show False by blast
    qed
  qed simp
  also have "\<dots> \<longleftrightarrow> list_all is_space s"
    by (simp add: t_def dropWhile_eq_Nil_conv list_all_iff)
  finally show ?thesis .
qed

lemma request_word_makeGuess:
  "request_word (makeGuess_request rt gameId w) = Some (trim (toLowerCase rt w))"
  by (simp add: request_word_def makeGuess_request_def get_member_def str_def)

lemma normalize_sample:
  "trim (toLowerCase ascii_runtime (str ''  DoG '')) = str ''dog''"
  by (simp add: trim_def ascii_runtime_def ascii_lower_def str_def is_space_def)


lemma trim_pad:
  assumes pre: "list_all is_space pre" and post: "list_all is_space post"
  shows "trim (pre @ s @ post) = trim s"
proof -
  have drop_pre: "dropWhile is_space (pre @ s @ post) = dropWhile is_space (s @ post)"
    using pre by (simp add: dropWhile_append2 list_all_iff)
  have rev_post: "\<And>t. dropWhile is_space (rev post @ t) = dropWhile is_space t"
  proof -
    fix t
    have "\<And>x. x \<in> set (rev post) \<Longrightarrow> is_space x"
      using post by (simp add: list_all_iff)
    then show "dropWhile is_space (rev post @ t) = dropWhile is_space t"
      by (rule dropWhile_append2)
  qed
  show ?thesis
  proof (cases "list_all is_space s")
    case True
    then have "list_all is_space (s @ post)" using post by simp
    then have "trim (s @ post) = []" by (simp only: trim_empty_iff)
    moreover have "trim (pre @ s @ post) = trim (s @ post)"
      by (simp add: trim_def drop_pre)
    moreover have "trim s = []" using True by (simp only: trim_empty_iff)
    ultimately show ?thesis by simp
  next
    case False
    then obtain x where "x \<in> set s" "\<not> is_space x" by (auto simp: list_all_iff)
    then have "dropWhile is_space (s @ post) = dropWhile is_space s @ post"
      by (simp add: dropWhile_append1)
    then show ?thesis by (simp add: trim_def drop_pre rev_post)
  qed
qed

lemma ascii_lower_space: "is_space (ascii_lower u) = is_space u"
  by (auto simp: ascii_lower_def is_space_def)

lemma ascii_lower_idem: "ascii_lower (ascii_lower u) = ascii_lower u"
  by (simp add: ascii_lower_def)

lemma toLowerCase_ascii: "toLowerCase ascii_runtime = map ascii_lower"
  by (simp add: ascii_runtime_def)

text \<open>
  Claim C8. The word in the body of a guess request is the typed word lower-cased and
  then trimmed; it neither starts nor ends with white space, whatever was typed. With
  the ASCII lower-casing, white space around the word and the case of its letters do not
  change what is sent.
\<close>

theorem makeGuess_sends_normalized_word:
  "request_word (makeGuess_request rt gameId w) = Some (trim (toLowerCase rt w))
   \<and> dropWhile is_space (trim (toLowerCase rt w)) = trim (toLowerCase rt w)
   \<and> dropWhile is_space (rev (trim (toLowerCase rt w))) = rev (trim (toLowerCase rt w))
   \<and> makeGuess rt fetch gameId w
       = receive rt (str ''Failed to make guess'') (fetch (makeGuess_request rt gameId w))
   \<and> (list_all is_space pre \<and> list_all is_space post \<longrightarrow>
        request_word (makeGuess_request ascii_runtime gameId (pre @ w @ post))
        = request_word (makeGuess_request ascii_runtime gameId w))
   \<and> request_word (makeGuess_request ascii_runtime gameId (map ascii_lower w))
       = request_word (makeGuess_request ascii_runtime gameId w)"
proof -
  have pad: "list_all is_space pre \<and> list_all is_space post \<longrightarrow>
        request_word (makeGuess_request ascii_runtime gameId (pre @ w @ post))
        = request_word (makeGuess_request ascii_runtime gameId w)"
  proof
    assume "list_all is_space pre \<and> list_all is_space post"
    then have "list_all is_space (map ascii_lower pre)" "list_all is_space (map ascii_lower post)"
      by (simp_all add: list_all_iff ascii_lower_space)
    then have "trim (map ascii_lower pre @ map ascii_lower w @ map ascii_lower post)
      = trim (map ascii_lower w)" by (rule trim_pad)
    then show "request_word (makeGuess_request ascii_runtime gameId (pre @ w @ post))
        = request_word (makeGuess_request ascii_runtime gameId w)"
      by (simp add: request_word_makeGuess toLowerCase_ascii)
  qed
  have lower: "request_word (makeGuess_request ascii_runtime gameId (map ascii_lower w))
       = request_word (makeGuess_request ascii_runtime gameId w)"
    by (simp add: request_word_makeGuess toLowerCase_ascii ascii_lower_idem comp_def)
  show ?thesis
    using pad lower
    by (simp add: request_word_makeGuess trim_no_leading_space trim_no_trailing_space
        makeGuess_def)
qed

theorem makeGuess_sends_normalized_word_witness:
  "list_all is_space (str ''  '') \<and> list_all is_space (str '' '')
   \<and> request_word (makeGuess_request ascii_runtime (str ''g1'') (str ''  '' @ str ''DoG'' @ str '' ''))
       = Some (str ''dog'')
   \<and> request_word (makeGuess_request ascii_runtime (str ''g1'') (str ''DoG'')) = Some (str ''dog'')"
proof -
  have h: "list_all is_space (str ''  '') \<and> list_all is_space (str '' '')"
    by (simp add: str_def is_space_def)
  have "request_word (makeGuess_request ascii_runtime (str ''g1'') (str ''DoG''))
      = Some (trim (toLowerCase ascii_runtime (str ''DoG'')))"
    using makeGuess_sends_normalized_word [of ascii_runtime "str ''g1''" "str ''DoG''"] by simp
  also have "\<dots> = Some (str ''dog'')"
    by (simp add: trim_def ascii_runtime_def ascii_lower_def str_def is_space_def)
  finally have w: "request_word (makeGuess_request ascii_runtime (str ''g1'') (str ''DoG''))
      = Some (str ''dog'')" .
  from h makeGuess_sends_normalized_word
    [of ascii_runtime "str ''g1''" "str ''DoG''" _ "str ''  ''" "str '' ''"]
  have "request_word (makeGuess_request ascii_runtime (str ''g1'') (str ''  '' @ str ''DoG'' @ str '' ''))
      = request_word (makeGuess_request ascii_runtime (str ''g1'') (str ''DoG''))"
    by blast
  with h w show ?thesis by simp
qed

lemma receive_error_body:
  assumes "\<not> ok response" and "json_body response = Inr error_body"
    and "error_body \<noteq> JNull"
  shows "receive rt fallback (Inr response) =
     Inl (Error (case get_member error_body (str ''detail'') of
                   None \<Rightarrow> fallback
                 | Some detail \<Rightarrow> if truthy detail then ToString rt detail else fallback))"
  using assms
  by (cases error_body) (auto simp: receive_def throw_detail_def split: option.splits)

lemma receive_error_text:
  assumes "\<not> ok response" and "json_body response = Inr error_body"
    and "error_body \<noteq> JNull"
    and "detail = get_member error_body (str ''detail'')"
    and "detail = None \<or> (\<exists>text. detail = Some (JStr text))"
  shows "receive rt fallback (Inr response) =
     Inl (Error (if detail = Some (JStr []) then fallback
                 else spec_error_message detail fallback))"
  using assms(4,5) receive_error_body [OF assms(1-3), of rt fallback]
  by (auto simp: spec_error_message_def)

lemma unparseable_error_body:
  assumes "\<not> ok response" and "json_body response = Inl parse_error"
  shows "receive rt fallback (Inr response) = Inl parse_error"
  using assms by (simp add: receive_def throw_detail_def)

text \<open>
  Claim C9, as the code has it. Five operations raise on a response that is not ok:
  \<open>startGame\<close>, \<open>makeGuess\<close>, \<open>getGameState\<close>, \<open>giveUp\<close> and \<open>getClue\<close>. When the body of
  such a response is JSON other than \<open>null\<close> and its \<open>detail\<close> member is absent or a
  string, the error raised carries the \<open>detail\<close> text verbatim if the member is a
  non-empty string, and the operation's fallback message if the member is absent or the
  empty string. The sixth operation, \<open>checkHealth\<close>, raises nothing on such a response:
  it returns false.
\<close>

theorem error_detail_surfaced:
  assumes "\<forall>r. fetch r = Inr response" and "\<not> ok response"
    and "json_body response = Inr error_body" and "error_body \<noteq> JNull"
    and "detail = get_member error_body (str ''detail'')"
    and "detail = None \<or> (\<exists>text. detail = Some (JStr text))"
  shows "startGame rt fetch difficulty dailyMode
           = Inl (Error (if detail = Some (JStr []) then str ''Failed to start game''
                         else spec_error_message detail (str ''Failed to start game'')))
       \<and> makeGuess rt fetch gameId w
           = Inl (Error (if detail = Some (JStr []) then str ''Failed to make guess''
                         else spec_error_message detail (str ''Failed to make guess'')))
       \<and> getGameState rt fetch gameId
           = Inl (Error (if detail = Some (JStr []) then str ''Failed to get game state''
                         else spec_error_message detail (str ''Failed to get game state'')))
       \<and> giveUp rt fetch gameId
           = Inl (Error (if detail = Some (JStr []) then str ''Failed to give up''
                         else spec_error_message detail (str ''Failed to give up'')))
       \<and> getClue rt fetch gameId
           = Inl (Error (if detail = Some (JStr []) then str ''Failed to get clue''
                         else spec_error_message detail (str ''Failed to get clue'')))
       \<and> checkHealth fetch = Inr False"
  using assms(1,2) receive_error_text [OF assms(2-6)]
  by (simp add: startGame_def makeGuess_def getGameState_def giveUp_def getClue_def
      checkHealth_def)

theorem error_detail_surfaced_witness:
  "\<not> ok not_found_response
   \<and> getClue ascii_runtime (\<lambda>r. Inr not_found_response) (str ''g1'')
       = Inl (Error (str ''Game not found''))
   \<and> checkHealth (\<lambda>r. Inr not_found_response) = Inr False"
proof -
  have a: "\<forall>r. (\<lambda>r. Inr not_found_response :: js_error + response) r = Inr not_found_response"
    by simp
  have b: "\<not> ok not_found_response" by (simp add: ok_def not_found_response_def)
  have c: "json_body not_found_response = Inr (JObj [(str ''detail'', JStr (str ''Game not found''))])"
    by (simp add: not_found_response_def)
  have d: "Some (JStr (str ''Game not found''))
      = get_member (JObj [(str ''detail'', JStr (str ''Game not found''))]) (str ''detail'')"
    by (simp add: get_member_def)
  have n: "JObj [(str ''detail'', JStr (str ''Game not found''))] \<noteq> JNull"
    by simp
  have e: "Some (JStr (str ''Game not found'')) = None
      \<or> (\<exists>text. Some (JStr (str ''Game not found'')) = Some (JStr text))"
    by simp
  from error_detail_surfaced [OF a b c n d e, of ascii_runtime]
  have "getClue ascii_runtime (\<lambda>r. Inr not_found_response) (str ''g1'')
      = Inl (Error (if Some (JStr (str ''Game not found'')) = Some (JStr [])
                    then str ''Failed to get clue''
                    else spec_error_message (Some (JStr (str ''Game not found'')))
                           (str ''Failed to get clue'')))
    \<and> checkHealth (\<lambda>r. Inr not_found_response) = Inr False"
    by blast
  then show ?thesis using b by (simp add: spec_error_message_def str_def)
qed

text \<open>
  Claim C9 as stated promises the \<open>detail\<close> text whenever the member is present. The
  code writes \<^verbatim>\<open>error.detail || fallback\<close>, so an empty \<open>detail\<close> gives the
  fallback message instead.
\<close>

theorem error_detail_counterexample:
  "\<not> ok empty_detail_response
   \<and> json_body empty_detail_response = Inr (JObj [(str ''detail'', JStr [])])
   \<and> makeGuess ascii_runtime (\<lambda>r. Inr empty_detail_response) (str ''g1'') (str ''dog'')
       = Inl (Error (str ''Failed to make guess''))
   \<and> makeGuess ascii_runtime (\<lambda>r. Inr empty_detail_response) (str ''g1'') (str ''dog'')
       \<noteq> Inl (Error (spec_error_message (Some (JStr [])) (str ''Failed to make guess'')))"
  by (simp add: makeGuess_def receive_def throw_detail_def empty_detail_response_def ok_def
      get_member_def spec_error_message_def str_def)

section \<open>Properties of the guess handler\<close>

lemma handleGuess_phases:
  "handleGuess s guessOutcome stateOutcome =
     (case handleGuess_begin s of
        (s1, e1, None) \<Rightarrow> (s1, e1)
      | (s1, e1, Some p1) \<Rightarrow>
          (case resume s1 p1 (GuessReply guessOutcome) of
             (s2, e2, None) \<Rightarrow> (s2, e1 @ e2)
           | (s2, e2, Some p2) \<Rightarrow>
               (case resume s2 p2 (StateReply stateOutcome) of
                  (s3, e3, p3) \<Rightarrow> (s3, e1 @ e2 @ e3))))"
  by (simp add: handleGuess_def handleGuess_begin_def Let_def
      split: option.splits sum.splits)

lemma handleGetClue_phases:
  "handleGetClue s clueOutcome =
     (case handleGetClue_begin s of
        (s1, e1, None) \<Rightarrow> (s1, e1)
      | (s1, e1, Some p1) \<Rightarrow>
          (case resume s1 p1 (ClueReply clueOutcome) of (s2, e2, p2) \<Rightarrow> (s2, e1 @ e2)))"
  by (simp add: handleGetClue_def handleGetClue_begin_def Let_def
      split: option.splits sum.splits)





text \<open>
  Claim C4. When the guess request or the refresh of the game state that follows it
  fails, the session after \<open>handleGuess\<close> differs from the session before at most in
  its error message: the game state, and with it the guesses and the guess count, is
  the one held before, and no celebration is scheduled.
\<close>

theorem failed_guess_leaves_session:
  assumes "isl guessOutcome \<or> isl stateOutcome"
  shows "(\<exists>message. fst (handleGuess s guessOutcome stateOutcome) = s\<lparr>error := message\<rparr>)
       \<and> gameState (fst (handleGuess s guessOutcome stateOutcome)) = gameState s
       \<and> map_option guesses (gameState (fst (handleGuess s guessOutcome stateOutcome)))
           = map_option guesses (gameState s)
       \<and> map_option guess_count (gameState (fst (handleGuess s guessOutcome stateOutcome)))
           = map_option guess_count (gameState s)
       \<and> (\<forall>action delay. SetTimeout action delay \<notin> set (snd (handleGuess s guessOutcome stateOutcome)))"
proof -
  have same: "s\<lparr>error := error s\<rparr> = s" by simp
  have ex: "\<exists>message. fst (handleGuess s guessOutcome stateOutcome) = s\<lparr>error := message\<rparr>"
  proof (cases "gameState s = None \<or> trim (guessInput s) = [] \<or> loading s")
    case True
    then have "fst (handleGuess s guessOutcome stateOutcome) = s\<lparr>error := error s\<rparr>"
      by (auto simp: handleGuess_def split: option.splits)
    then show ?thesis by blast
  next
    case False
    then obtain game where g: "gameState s = Some game" by auto
    from False have l: "\<not> loading s" "trim (guessInput s) \<noteq> []" by auto
    show ?thesis
    proof (cases guessOutcome)
      case (Inl e)
      then have "fst (handleGuess s guessOutcome stateOutcome)
          = s\<lparr>error := catch_message e guess_error_text\<rparr>"
        using g l by (simp add: handleGuess_def)
      then show ?thesis by blast
    next
      case (Inr result)
      with assms obtain e where "stateOutcome = Inl e" by (cases stateOutcome) auto
      then have "fst (handleGuess s guessOutcome stateOutcome)
          = s\<lparr>error := catch_message e guess_error_text\<rparr>"
        using g l Inr by (simp add: handleGuess_def)
      then show ?thesis by blast
    qed
  qed
  then obtain message where m: "fst (handleGuess s guessOutcome stateOutcome) = s\<lparr>error := message\<rparr>"
    by blast
  have notimer: "\<forall>action delay. SetTimeout action delay \<notin> set (snd (handleGuess s guessOutcome stateOutcome))"
    using assms by (auto simp: handleGuess_def Let_def split: option.splits sum.splits)
  show ?thesis using ex notimer by (simp add: m)
qed

theorem failed_guess_leaves_session_witness:
  "isl (Inl offline :: js_error + GuessResponse)
   \<and> handleGuess active_session (Inl offline) (Inr after_bird)
       = (active_session\<lparr>error := str ''Network request failed''\<rparr>,
          [Call (MakeGuess (str ''g1'') (str ''bird''))])
   \<and> gameState (fst (handleGuess active_session (Inl offline) (Inr after_bird))) = Some tied_game"
proof -
  have h: "isl (Inl offline :: js_error + GuessResponse) \<or> isl (Inr after_bird :: js_error + GameState)"
    by simp
  have g: "gameState active_session = Some tied_game" by (simp add: active_session_def)
  from failed_guess_leaves_session [OF h, of active_session]
  have "gameState (fst (handleGuess active_session (Inl offline) (Inr after_bird))) = Some tied_game"
    using g by simp
  moreover have "handleGuess active_session (Inl offline) (Inr after_bird)
       = (active_session\<lparr>error := str ''Network request failed''\<rparr>,
          [Call (MakeGuess (str ''g1'') (str ''bird''))])"
    by (simp add: handleGuess_def active_session_def initial_session_def tied_game_def
        offline_def catch_message_def trim_def is_space_def str_def)
  ultimately show ?thesis by simp
qed

section \<open>Properties of the clue handler and its timer\<close>

lemma session_perform: "session (perform w e) = session w"
  by (cases e) simp_all

lemma session_foldl_perform: "session (foldl perform w es) = session w"
  by (induction es arbitrary: w) (simp_all add: session_perform)

lemma session_commit: "session (commit w r) = fst r"
  by (simp add: commit_def session_foldl_perform)

lemma cluesUsed_fire_timer: "cluesUsed (session (fire_timer w a)) = cluesUsed (session w)"
  by (cases a) simp_all

lemma cluesUsed_foldl_fire_timer:
  "cluesUsed (session (foldl fire_timer w as)) = cluesUsed (session w)"
  by (induction as arbitrary: w) (simp_all add: cluesUsed_fire_timer)

lemma cluesUsed_advance: "cluesUsed (session (advance w dt)) = cluesUsed (session w)"
  by (simp add: advance_def Let_def cluesUsed_foldl_fire_timer)

lemma cluesUsed_startNewGame: "cluesUsed (fst (startNewGame s dailyMode out)) = cluesUsed s"
  by (simp add: startNewGame_def Let_def split: sum.splits)

lemma cluesUsed_initializeGame: "cluesUsed (fst (initializeGame s c out)) = cluesUsed s"
  by (simp add: initializeGame_def Let_def split: sum.splits)

lemma cluesUsed_handleGuess: "cluesUsed (fst (handleGuess s out1 out2)) = cluesUsed s"
  by (simp add: handleGuess_def Let_def split: option.splits sum.splits)

lemma cluesUsed_handleGiveUp: "cluesUsed (fst (handleGiveUp s c out1 out2)) = cluesUsed s"
  by (simp add: handleGiveUp_def Let_def split_beta cluesUsed_startNewGame
      split: option.splits sum.splits)

lemma cluesUsed_handleGetClue:
  "cluesUsed (fst (handleGetClue s out)) = cluesUsed s
   \<or> (\<exists>r. out = Inr r \<and> cluesUsed (fst (handleGetClue s out)) = clue_number r)"
  by (simp add: handleGetClue_def Let_def split: option.splits sum.splits)

lemma cluesUsed_step:
  "cluesUsed (session (step w e)) \<in> insert (cluesUsed (session w)) (set (clue_numbers [e]))"
proof (cases e)
  case (RequestClue out)
  then show ?thesis
    using cluesUsed_handleGetClue [of "session w" out]
    by (cases out) (auto simp: session_commit)
qed (simp_all add: session_commit cluesUsed_initializeGame cluesUsed_handleGuess
    cluesUsed_handleGiveUp cluesUsed_advance)

lemma clue_numbers_Cons: "set (clue_numbers (e # es)) = set (clue_numbers [e]) \<union> set (clue_numbers es)"
proof (cases e)
  case (RequestClue out)
  then show ?thesis by (cases out) simp_all
qed simp_all

lemma cluesUsed_run:
  "cluesUsed (session (run w events)) \<in> insert (cluesUsed (session w)) (set (clue_numbers events))"
proof (induction events arbitrary: w)
  case Nil
  show ?case by (simp add: run_def)
next
  case (Cons e es)
  have "cluesUsed (session (run (step w e) es))
      \<in> insert (cluesUsed (session (step w e))) (set (clue_numbers es))"
    by (rule Cons.IH)
  moreover have "cluesUsed (session (step w e))
      \<in> insert (cluesUsed (session w)) (set (clue_numbers [e]))"
    by (rule cluesUsed_step)
  moreover have "run w (e # es) = run (step w e) es" by (simp add: run_def)
  ultimately show ?case
    unfolding clue_numbers_Cons [of e es] by auto
qed

lemma cluesUsed_handleGetClue_exact:
  "cluesUsed (fst (handleGetClue s clueOutcome)) =
     (case clueOutcome of
        Inr clueResponse \<Rightarrow>
          if gameState s \<noteq> None \<and> \<not> loading s \<and> cluesUsed s < 3
          then clue_number clueResponse else cluesUsed s
      | Inl err \<Rightarrow> cluesUsed s)"
  by (simp add: handleGetClue_def Let_def split: option.splits sum.splits)

lemma cluesUsed_other_steps:
  "(\<forall>clueOutcome. e \<noteq> RequestClue clueOutcome) \<Longrightarrow>
     cluesUsed (session (step w e)) = cluesUsed (session w)"
  by (cases e) (simp_all add: session_commit cluesUsed_initializeGame cluesUsed_handleGuess
      cluesUsed_handleGiveUp cluesUsed_advance)

lemma cluesUsed_begins:
  "cluesUsed (fst (initializeGame_begin s)) = cluesUsed s"
  "cluesUsed (fst (startNewGame_begin s d)) = cluesUsed s"
  "cluesUsed (fst (handleGuess_begin s)) = cluesUsed s"
  "cluesUsed (fst (handleGiveUp_begin s c)) = cluesUsed s"
  "cluesUsed (fst (handleGetClue_begin s)) = cluesUsed s"
  by (simp_all add: initializeGame_begin_def startNewGame_begin_def handleGuess_begin_def
      handleGiveUp_begin_def handleGetClue_begin_def split: option.splits)

lemma view_started: "view (started w r) = fst r"
  by (simp add: started_def split: prod.splits)

lemma cluesUsed_resume:
  "cluesUsed (fst (resume s p r)) \<in> insert (cluesUsed s) (set (answered_clue_numbers [Answered i r]))"
  by (induction s p r rule: resume.induct)
     (simp_all add: Let_def startNewGame_begin_def)

lemma cluesUsed_answered:
  "cluesUsed (view (answered w i r))
     \<in> insert (cluesUsed (view w)) (set (answered_clue_numbers [Answered i r]))"
proof (cases "i < length (in_flight w)")
  case True
  then have "view (answered w i r) = fst (resume (view w) (in_flight w ! i) r)"
    by (simp add: answered_def split: prod.splits)
  then show ?thesis using cluesUsed_resume by simp
next
  case False
  then show ?thesis by (simp add: answered_def)
qed

lemma cluesUsed_act:
  "cluesUsed (view (act w a)) \<in> insert (cluesUsed (view w)) (set (answered_clue_numbers [a]))"
proof (cases a)
  case (Answered i r)
  then show ?thesis using cluesUsed_answered [of w i r] by simp
qed (simp_all add: view_started cluesUsed_begins)

lemma answered_clue_numbers_Cons:
  "set (answered_clue_numbers (a # as))
     = set (answered_clue_numbers [a]) \<union> set (answered_clue_numbers as)"
  by (induction "a # as" arbitrary: a as rule: answered_clue_numbers.induct) simp_all

lemma cluesUsed_acts:
  "cluesUsed (view (acts w as)) \<in> insert (cluesUsed (view w)) (set (answered_clue_numbers as))"
proof (induction as arbitrary: w)
  case Nil
  show ?case by (simp add: acts_def)
next
  case (Cons a as)
  have "cluesUsed (view (acts (act w a) as))
      \<in> insert (cluesUsed (view (act w a))) (set (answered_clue_numbers as))"
    by (rule Cons.IH)
  moreover have "cluesUsed (view (act w a))
      \<in> insert (cluesUsed (view w)) (set (answered_clue_numbers [a]))"
    by (rule cluesUsed_act)
  moreover have "acts w (a # as) = acts (act w a) as" by (simp add: acts_def)
  ultimately show ?case
    unfolding answered_clue_numbers_Cons [of a as] by auto
qed

text \<open>
  Claim C2, as the code has it. The counter is 0 initially. \<open>handleGetClue\<close> changes it
  only when a game state is held, nothing is loading, the counter is below 3 and the
  request succeeds, and then sets it to the clue number the server reported; every
  other event (the other handlers, typing, timers coming due) leaves it as it is. So in
  every state reached from the initial one, with handlers run to completion or with
  requests in flight, the counter is 0 or a clue number carried by a successful clue
  answer, and it is at most 3 as long as no such answer carries a clue number above 3.
  Whenever the counter is 3 or more, \<open>handleGetClue\<close> leaves the session as it is, calls
  no service and does not suspend.
\<close>

theorem clue_cap_follows_server:
  "cluesUsed (session initial_world) = 0
   \<and> cluesUsed (fst (handleGetClue s clueOutcome)) =
       (case clueOutcome of
          Inr clueResponse \<Rightarrow>
            if gameState s \<noteq> None \<and> \<not> loading s \<and> cluesUsed s < 3
            then clue_number clueResponse else cluesUsed s
        | Inl err \<Rightarrow> cluesUsed s)
   \<and> ((\<forall>out. e \<noteq> RequestClue out) \<longrightarrow>
        cluesUsed (session (step w e)) = cluesUsed (session w))
   \<and> cluesUsed (session (run initial_world events)) \<in> insert 0 (set (clue_numbers events))
   \<and> ((\<forall>n\<in>set (clue_numbers events). n \<le> 3) \<longrightarrow>
        cluesUsed (session (run initial_world events)) \<le> 3)
   \<and> cluesUsed (view (acts initial_screen actions))
       \<in> insert 0 (set (answered_clue_numbers actions))
   \<and> ((\<forall>n\<in>set (answered_clue_numbers actions). n \<le> 3) \<longrightarrow>
        cluesUsed (view (acts initial_screen actions)) \<le> 3)
   \<and> (3 \<le> cluesUsed s \<longrightarrow>
        fst (handleGetClue s clueOutcome) = s
      \<and> (\<forall>c. Call c \<notin> set (snd (handleGetClue s clueOutcome)))
      \<and> fst (handleGetClue_begin s) = s
      \<and> (\<forall>c. Call c \<notin> set (fst (snd (handleGetClue_begin s))))
      \<and> snd (snd (handleGetClue_begin s)) = None)"
proof -
  have init: "cluesUsed (session initial_world) = 0"
    by (simp add: initial_world_def initial_session_def)
  have init': "cluesUsed (view initial_screen) = 0"
    by (simp add: initial_screen_def initial_session_def)
  have other: "(\<forall>out. e \<noteq> RequestClue out) \<longrightarrow>
        cluesUsed (session (step w e)) = cluesUsed (session w)"
    using cluesUsed_other_steps [of e w] by blast
  have mem: "cluesUsed (session (run initial_world events)) \<in> insert 0 (set (clue_numbers events))"
    using cluesUsed_run [of initial_world events] init by simp
  then have cap: "(\<forall>n\<in>set (clue_numbers events). n \<le> 3) \<longrightarrow>
      cluesUsed (session (run initial_world events)) \<le> 3"
    by auto
  have mem': "cluesUsed (view (acts initial_screen actions))
       \<in> insert 0 (set (answered_clue_numbers actions))"
    using cluesUsed_acts [of initial_screen actions] init' by simp
  then have cap': "(\<forall>n\<in>set (answered_clue_numbers actions). n \<le> 3) \<longrightarrow>
      cluesUsed (view (acts initial_screen actions)) \<le> 3"
    by auto
  have guard: "3 \<le> cluesUsed s \<longrightarrow>
        fst (handleGetClue s clueOutcome) = s
      \<and> (\<forall>c. Call c \<notin> set (snd (handleGetClue s clueOutcome)))
      \<and> fst (handleGetClue_begin s) = s
      \<and> (\<forall>c. Call c \<notin> set (fst (snd (handleGetClue_begin s))))
      \<and> snd (snd (handleGetClue_begin s)) = None"
    by (simp add: handleGetClue_def handleGetClue_begin_def split: option.splits)
  show ?thesis
    using init cluesUsed_handleGetClue_exact [of s clueOutcome] other mem cap mem' cap' guard
    by (intro conjI) assumption+
qed

theorem clue_cap_follows_server_witness:
  "clue_numbers three_clues = [1, 2, 3]
   \<and> cluesUsed (session (run initial_world three_clues)) = 3
   \<and> handleGetClue (session (run initial_world three_clues)) (Inr (clue_reply 4 ''four letters''))
       = (session (run initial_world three_clues), [Alert all_clues_used_text])
   \<and> cluesUsed (session (step (run initial_world three_clues) (Elapse 5))) = 3
   \<and> answered_clue_numbers one_clue_answered = [1]
   \<and> cluesUsed (view (acts initial_screen one_clue_answered)) = 1"
proof -
  have n: "clue_numbers three_clues = [1, 2, 3]"
    by (simp add: three_clues_def clue_reply_def)
  then have h: "\<forall>n\<in>set (clue_numbers three_clues). n \<le> 3"
    by simp
  have u: "cluesUsed (session (run initial_world three_clues)) = 3"
    by (simp add: run_def three_clues_def commit_def initial_world_def initial_session_def
        initializeGame_def handleGetClue_def clue_reply_def)
  have g: "gameState (session (run initial_world three_clues)) = Some tied_game"
    by (simp add: run_def three_clues_def commit_def initial_world_def initial_session_def
        initializeGame_def handleGetClue_def clue_reply_def)
  have l: "\<not> loading (session (run initial_world three_clues))"
    by (simp add: run_def three_clues_def commit_def initial_world_def initial_session_def
        initializeGame_def handleGetClue_def clue_reply_def)
  have e: "\<forall>out. Elapse 5 \<noteq> RequestClue out" by simp
  have a: "answered_clue_numbers one_clue_answered = [1]"
    by (simp add: one_clue_answered_def clue_reply_def)
  then have b: "\<forall>n\<in>set (answered_clue_numbers one_clue_answered). n \<le> 3"
    by simp
  have v: "cluesUsed (view (acts initial_screen one_clue_answered)) = 1"
    by (simp add: acts_def one_clue_answered_def initial_screen_def initial_session_def
        started_def answered_def initializeGame_begin_def handleGetClue_begin_def
        clue_reply_def)
  note inst = clue_cap_follows_server
    [where events = three_clues and s = "session (run initial_world three_clues)"
       and clueOutcome = "Inr (clue_reply 4 ''four letters'')" and e = "Elapse 5"
       and w = "run initial_world three_clues" and actions = one_clue_answered]
  from inst h u
  have "fst (handleGetClue (session (run initial_world three_clues))
              (Inr (clue_reply 4 ''four letters'')))
        = session (run initial_world three_clues)"
    by simp
  moreover have "snd (handleGetClue (session (run initial_world three_clues))
              (Inr (clue_reply 4 ''four letters''))) = [Alert all_clues_used_text]"
    using u g l by (simp add: handleGetClue_def)
  moreover from inst e u
  have "cluesUsed (session (step (run initial_world three_clues) (Elapse 5))) = 3"
    by simp
  moreover from inst b have "cluesUsed (view (acts initial_screen one_clue_answered)) \<le> 3"
    by blast
  ultimately show ?thesis using n u a v by (simp add: prod_eq_iff)
qed

text \<open>
  Claim C2 as stated makes the bound hold in every reachable state. The handler stores
  whatever number the server reports: when the server numbers the third clue 4, the
  counter is 4.
\<close>

theorem clue_cap_counterexample:
  "\<not> cluesUsed (session (run initial_world overcounted_clues)) \<le> 3"
  by (simp add: run_def overcounted_clues_def commit_def initial_world_def initial_session_def
        initializeGame_def handleGetClue_def clue_reply_def)

lemma clue_reveal_arms_timer:
  assumes "gameState s = Some game" and "\<not> loading s" and "cluesUsed s < 3"
  shows "snd (handleGetClue s (Inr clueResponse))
       = [Call (GetClue (game_id game)), SetTimeout ClearClue 10000]"
  using assms by (simp add: handleGetClue_def)

text \<open>
  Claim C6 fails on the code. A reveal arms a timer of 10000 ms and nothing ever cancels
  one. After a first clue at time 0 and a second at time 8000 two timers are pending;
  at time 10000 the first fires and clears the text of the second clue, two seconds
  after it was revealed, while the timer of the second clue is still pending.
\<close>

theorem stale_timer_clears_newer_clue:
  "currentClue (session (run initial_world two_clues)) = str ''it can fly''
   \<and> clock (run initial_world two_clues) = 8000
   \<and> timers (run initial_world two_clues) = [(10000, ClearClue), (18000, ClearClue)]
   \<and> currentClue (session (run initial_world (two_clues @ [Elapse 2000]))) = []
   \<and> clock (run initial_world (two_clues @ [Elapse 2000])) = 10000
   \<and> timers (run initial_world (two_clues @ [Elapse 2000])) = [(18000, ClearClue)]"
  by (simp add: run_def two_clues_def commit_def initial_world_def initial_session_def
        initializeGame_def handleGetClue_def clue_reply_def advance_def Let_def)

end
